theory Spec2Isabelle
  imports Main "HOL-Library.Sublist"
begin

section \<open>Python strings\<close>

text \<open>
  A Python \<^verbatim>\<open>str\<close> is a \<^typ>\<open>string\<close>; one \<^typ>\<open>char\<close> stands for one code point of
  the range U+0000 .. U+00FF, so \<^verbatim>\<open>'\xa0'\<close> is the single character \<open>CHR 0xA0\<close>. Text
  with code points beyond that range is outside the model.
\<close>

definition isspace :: "char \<Rightarrow> bool" where
  \<comment> \<open>\<^verbatim>\<open>str.isspace\<close>, which is also what \<^verbatim>\<open>str.strip()\<close> removes and what \<^verbatim>\<open>\s\<close> matches\<close>
  "isspace c = (let n = (of_char c :: nat) in
     (9 \<le> n \<and> n \<le> 13) \<or> (28 \<le> n \<and> n \<le> 32) \<or> n = 133 \<or> n = 160)"

definition isdigit :: "char \<Rightarrow> bool" where
  \<comment> \<open>the decimal digits, what \<^verbatim>\<open>\d\<close> matches\<close>
  "isdigit c = (let n = (of_char c :: nat) in 48 \<le> n \<and> n \<le> 57)"

definition strip_where :: "(char \<Rightarrow> bool) \<Rightarrow> string \<Rightarrow> string" where
  "strip_where P s = rev (dropWhile P (rev (dropWhile P s)))"

definition strip :: "string \<Rightarrow> string" where
  \<comment> \<open>\<^verbatim>\<open>s.strip()\<close>\<close>
  "strip s = strip_where isspace s"

definition strip_char :: "char \<Rightarrow> string \<Rightarrow> string" where
  \<comment> \<open>\<^verbatim>\<open>s.strip(c)\<close> for a one-character argument\<close>
  "strip_char c s = strip_where (\<lambda>x. x = c) s"

primrec split_where :: "(char \<Rightarrow> bool) \<Rightarrow> string \<Rightarrow> string list" where
  "split_where P [] = [[]]"
| "split_where P (x # xs) =
     (if P x then [] # split_where P xs
      else (case split_where P xs of
              y # ys \<Rightarrow> (x # y) # ys
            | [] \<Rightarrow> [[x]]))"

definition split :: "char \<Rightarrow> string \<Rightarrow> string list" where
  \<comment> \<open>\<^verbatim>\<open>s.split(c)\<close> for a one-character separator: never the empty list\<close>
  "split c s = split_where (\<lambda>x. x = c) s"

definition tokens :: "string \<Rightarrow> string list" where
  \<comment> \<open>the maximal runs of non-whitespace (\<^verbatim>\<open>re.findall(r'\S+', s)\<close>): how the value of a
      \<^verbatim>\<open>class\<close> attribute becomes the list of its classes\<close>
  "tokens s = filter (\<lambda>t. t \<noteq> []) (split_where isspace s)"

primrec contains :: "string \<Rightarrow> string \<Rightarrow> bool" where
  \<comment> \<open>\<^verbatim>\<open>sub in s\<close>; also \<^verbatim>\<open>re.compile(sub).search(s)\<close> for a pattern without metacharacters\<close>
  "contains sub [] = (sub = [])"
| "contains sub (c # cs) = (prefix sub (c # cs) \<or> contains sub cs)"

definition startswith :: "string \<Rightarrow> string \<Rightarrow> bool" where
  "startswith s pre = prefix pre s"

definition replace_char :: "char \<Rightarrow> char \<Rightarrow> string \<Rightarrow> string" where
  \<comment> \<open>\<^verbatim>\<open>s.replace(a, b)\<close> for one-character \<open>a\<close> and \<open>b\<close>\<close>
  "replace_char a b s = map (\<lambda>c. if c = a then b else c) s"

definition remove_char :: "char \<Rightarrow> string \<Rightarrow> string" where
  \<comment> \<open>\<^verbatim>\<open>s.replace(a, '')\<close>\<close>
  "remove_char a s = filter (\<lambda>c. c \<noteq> a) s"

fun join :: "string \<Rightarrow> string list \<Rightarrow> string" where
  \<comment> \<open>\<^verbatim>\<open>sep.join(xs)\<close>\<close>
  "join sep [] = []"
| "join sep [x] = x"
| "join sep (x # y # ys) = x @ sep @ join sep (y # ys)"

subsection \<open>\<^verbatim>\<open>int(s)\<close>\<close>

text \<open>
  \<^verbatim>\<open>int(s)\<close> on a string: whitespace around the literal is skipped, one sign is allowed,
  and the digits may be grouped by single underscores. A literal with more digits than
  the interpreter's limit (\<^verbatim>\<open>sys.get_int_max_str_digits()\<close>, 4300 unless configured, 0 for
  no limit, never applied to 640 digits or fewer) raises \<^verbatim>\<open>ValueError\<close>, as every
  malformed literal does: the result \<open>None\<close>.
\<close>

definition int_isspace :: "char \<Rightarrow> bool" where
  \<comment> \<open>the whitespace \<^verbatim>\<open>int()\<close> skips: the C whitespace, and the whitespace beyond ASCII\<close>
  "int_isspace c = (let n = (of_char c :: nat) in
     (9 \<le> n \<and> n \<le> 13) \<or> n = 32 \<or> n = 133 \<or> n = 160)"

fun digits_ok :: "string \<Rightarrow> bool" where
  "digits_ok [] = False"
| "digits_ok [c] = isdigit c"
| "digits_ok (c # d # cs) =
     (isdigit c \<and> (if d = CHR ''_'' then digits_ok cs else digits_ok (d # cs)))"

definition digits_value :: "string \<Rightarrow> int" where
  "digits_value ds = foldl (\<lambda>a c. 10 * a + int (of_char c - 48)) 0 ds"

definition py_int :: "nat \<Rightarrow> string \<Rightarrow> int option" where
  "py_int max_str_digits s =
     (let t = strip_where int_isspace s;
          negative = (t \<noteq> [] \<and> hd t = CHR ''-'');
          body = (if t \<noteq> [] \<and> (hd t = CHR ''-'' \<or> hd t = CHR ''+'') then tl t else t);
          ds = filter isdigit body
      in if \<not> digits_ok body then None
         else if 0 < max_str_digits \<and> max_str_digits < length ds \<and> 640 < length ds then None
         else Some (if negative then - digits_value ds else digits_value ds))"

subsection \<open>\<^verbatim>\<open>str(v / 2.0)\<close>\<close>

function decimal :: "nat \<Rightarrow> string" where
  \<comment> \<open>\<^verbatim>\<open>str(n)\<close> for a natural number\<close>
  "decimal n = (if n < 10 then [''0123456789'' ! n]
                else decimal (n div 10) @ [''0123456789'' ! (n mod 10)])"
  by pat_completeness auto
termination
  by (relation "measure (\<lambda>n. n)") auto

declare decimal.simps [simp del]

text \<open>
  \<^verbatim>\<open>v / 2.0\<close> converts the integer \<open>v\<close> to a double first. Below \<open>2 ^ 53\<close> in magnitude the
  conversion and the halving are exact, the quotient is a multiple of one half below
  \<open>10 ^ 16\<close>, and \<^verbatim>\<open>str\<close> prints it in positional notation with one fractional digit.
  From \<open>2 ^ 1024 - 2 ^ 970\<close> on the conversion raises \<^verbatim>\<open>OverflowError\<close>: the result
  \<open>None\<close>. In between the conversion rounds and \<^verbatim>\<open>str\<close> prints the shortest digits that
  read back as the same double; that printing is not modelled, it is the parameter
  \<open>float_repr\<close>.
\<close>

definition str_half :: "(int \<Rightarrow> string) \<Rightarrow> int \<Rightarrow> string option" where
  "str_half float_repr v =
     (if \<bar>v\<bar> < 2 ^ 53 then
        Some ((if v < 0 then ''-'' else '''') @ decimal (nat \<bar>v\<bar> div 2) @
              (if even v then ''.0'' else ''.5''))
      else if \<bar>v\<bar> < 2 ^ 1024 - 2 ^ 970 then Some (float_repr v)
      else None)"

section \<open>Parsed documents\<close>

text \<open>
  What \<^verbatim>\<open>BeautifulSoup(content, 'html.parser')\<close> returns: a tree of tags and strings. A tag
  has its name, its attributes as the parser stored them (one value per attribute name,
  read with \<open>map_of\<close>) and its children; the root is the tag \<^verbatim>\<open>[document]\<close>. Comments and
  the other strings that \<^verbatim>\<open>.text\<close> leaves out are left out of the tree. An element found by
  a search is a node together with its ancestors, the nearest first, which is what
  \<^verbatim>\<open>find_parent\<close> walks.
\<close>

datatype node =
    Tag string "(string \<times> string) list" "node list"
  | NavigableString string

type_synonym element = "node \<times> node list"

fun get_attr :: "node \<Rightarrow> string \<Rightarrow> string option" where
  \<comment> \<open>\<^verbatim>\<open>tag.get(key)\<close>\<close>
  "get_attr (Tag n as cs) key = map_of as key"
| "get_attr (NavigableString s) key = None"

definition get_class :: "node \<Rightarrow> string list option" where
  \<comment> \<open>\<^verbatim>\<open>tag.get('class')\<close>: the parser stores the classes as a list\<close>
  "get_class t = map_option tokens (get_attr t ''class'')"

fun strings :: "node \<Rightarrow> string list" where
  \<comment> \<open>the strings below a node, in document order\<close>
  "strings (NavigableString s) = [s]"
| "strings (Tag n as cs) = concat (map strings cs)"

definition text_of :: "node \<Rightarrow> string" where
  \<comment> \<open>\<^verbatim>\<open>tag.text\<close>\<close>
  "text_of t = concat (strings t)"

definition get_text_strip :: "node \<Rightarrow> string" where
  \<comment> \<open>\<^verbatim>\<open>tag.get_text(strip=True)\<close>: every string stripped, the empty ones dropped\<close>
  "get_text_strip t = concat (filter (\<lambda>s. s \<noteq> []) (map strip (strings t)))"

fun descendants :: "node list \<Rightarrow> node \<Rightarrow> element list" where
  \<comment> \<open>the nodes below a node whose own ancestors are \<open>ancs\<close>, in document order\<close>
  "descendants ancs (NavigableString s) = []"
| "descendants ancs (Tag n as cs) =
     concat (map (\<lambda>c. (c, Tag n as cs # ancs) # descendants (Tag n as cs # ancs) c) cs)"

definition find_all :: "(node \<Rightarrow> bool) \<Rightarrow> element \<Rightarrow> element list" where
  "find_all matches e = filter (\<lambda>d. matches (fst d)) (descendants (snd e) (fst e))"

definition find :: "(node \<Rightarrow> bool) \<Rightarrow> element \<Rightarrow> element option" where
  "find matches e = (case find_all matches e of [] \<Rightarrow> None | d # ds \<Rightarrow> Some d)"

definition find_parent :: "(node \<Rightarrow> bool) \<Rightarrow> element \<Rightarrow> element option" where
  "find_parent matches e =
     (case dropWhile (\<lambda>a. \<not> matches a) (snd e) of [] \<Rightarrow> None | p # ps \<Rightarrow> Some (p, ps))"

subsection \<open>Search criteria\<close>

fun named :: "string \<Rightarrow> node \<Rightarrow> bool" where
  \<comment> \<open>the first argument of \<^verbatim>\<open>find\<close>: a tag of that name\<close>
  "named name (Tag n as cs) = (n = name)"
| "named name (NavigableString s) = False"

definition list_attr_matches :: "(string \<Rightarrow> bool) \<Rightarrow> string list \<Rightarrow> bool" where
  \<comment> \<open>a criterion on a list-valued attribute: one of the values meets it, or the values
      joined by spaces do\<close>
  "list_attr_matches p vs = ((\<exists>v \<in> set vs. p v) \<or> p (join '' '' vs))"

definition class_is :: "string \<Rightarrow> node \<Rightarrow> bool" where
  \<comment> \<open>\<^verbatim>\<open>class_='name'\<close>, for a name without whitespace\<close>
  "class_is name t =
     (case get_class t of None \<Rightarrow> False | Some vs \<Rightarrow> list_attr_matches (\<lambda>v. v = name) vs)"

definition class_search :: "string \<Rightarrow> node \<Rightarrow> bool" where
  \<comment> \<open>\<^verbatim>\<open>class_=re.compile(pat)\<close>, for a pattern without metacharacters\<close>
  "class_search pat t =
     (case get_class t of None \<Rightarrow> False | Some vs \<Rightarrow> list_attr_matches (contains pat) vs)"

definition attr_search :: "string \<Rightarrow> string \<Rightarrow> node \<Rightarrow> bool" where
  \<comment> \<open>\<^verbatim>\<open>key=re.compile(pat)\<close> on a string-valued attribute\<close>
  "attr_search key pat t =
     (case get_attr t key of None \<Rightarrow> False | Some v \<Rightarrow> contains pat v)"

definition attr_is :: "string \<Rightarrow> string \<Rightarrow> node \<Rightarrow> bool" where
  \<comment> \<open>\<^verbatim>\<open>attrs={key: value}\<close> on a string-valued attribute\<close>
  "attr_is key value t = (get_attr t key = Some value)"

definition has_attr :: "string \<Rightarrow> node \<Rightarrow> bool" where
  \<comment> \<open>\<^verbatim>\<open>attrs={key: True}\<close>\<close>
  "has_attr key t = (get_attr t key \<noteq> None)"

subsection \<open>The two patterns with groups\<close>

definition num_char :: "char \<Rightarrow> bool" where
  \<comment> \<open>\<^verbatim>\<open>[\d.]\<close>\<close>
  "num_char c = (isdigit c \<or> c = CHR ''.'')"

definition count_char :: "char \<Rightarrow> bool" where
  \<comment> \<open>\<^verbatim>\<open>[\d,]\<close>\<close>
  "count_char c = (isdigit c \<or> c = CHR '','')"

fun search_out_of :: "string \<Rightarrow> string option" where
  \<comment> \<open>group 1 of \<^verbatim>\<open>re.search(r'([\d.]+)\s+out of', s)\<close>: at the leftmost position where a
      run of \<^verbatim>\<open>[\d.]\<close>, then whitespace, then \<^verbatim>\<open>out of\<close> stand, the run; both runs are
      maximal, since a shorter one is followed by a character of its own class\<close>
  "search_out_of [] = None"
| "search_out_of (c # cs) =
     (let run = takeWhile num_char (c # cs);
          rest = dropWhile num_char (c # cs)
      in if run \<noteq> [] \<and> takeWhile isspace rest \<noteq> [] \<and>
            prefix ''out of'' (dropWhile isspace rest)
         then Some run else search_out_of cs)"

definition search_count :: "string \<Rightarrow> string option" where
  \<comment> \<open>group 1 of \<^verbatim>\<open>re.search(r'([\d,]+)', s)\<close>: the leftmost maximal run of \<^verbatim>\<open>[\d,]\<close>\<close>
  "search_count s =
     (case dropWhile (\<lambda>c. \<not> count_char c) s of
        [] \<Rightarrow> None
      | c # cs \<Rightarrow> Some (takeWhile count_char (c # cs)))"

section \<open>The world outside the scraper\<close>

text \<open>
  The scraper blocks in two places: \<^verbatim>\<open>requests.get\<close> and \<^verbatim>\<open>time.sleep\<close>. The world is the
  list of the blocking calls made so far; the environment says how each call ends, given
  that history, so that two requests for one URL may end differently. A reply is a
  response (status code and parsed body), a \<^verbatim>\<open>RequestException\<close> raised by
  \<^verbatim>\<open>requests.get\<close> (timeout, connection error, ...), or any other exception leaving
  \<^verbatim>\<open>requests.get\<close> or the parser. Exceptions are \<^verbatim>\<open>KeyboardInterrupt\<close>, which is not an
  \<^verbatim>\<open>Exception\<close>, and the subclasses of \<^verbatim>\<open>Exception\<close> that are no \<^verbatim>\<open>RequestException\<close>.
  The interrupt arrives while the interpreter blocks; printing is not modelled.
\<close>

datatype exn = KeyboardInterrupt | Exception string

datatype reply =
    Response nat node
  | RequestException string
  | Raises exn

datatype action = GET string | Sleep nat

type_synonym world = "action list"

record env =
  http_get :: "world \<Rightarrow> string \<Rightarrow> reply"
  sleep_interrupted :: "world \<Rightarrow> bool"
  int_max_str_digits :: nat
  float_repr :: "int \<Rightarrow> string"

definition sleep :: "env \<Rightarrow> nat \<Rightarrow> world \<Rightarrow> exn option \<times> world" where
  \<comment> \<open>\<^verbatim>\<open>time.sleep\<close>, the duration in milliseconds\<close>
  "sleep ev ms w =
     (if sleep_interrupted ev w then Some KeyboardInterrupt else None, w @ [Sleep ms])"

section \<open>The scraper\<close>

record details =
  movie_name :: string
  year :: string
  genres :: string
  vote_average :: string
  vote_count :: string
  popularity :: string

text \<open>
  One dictionary of \<^verbatim>\<open>movies_data\<close>; its keys are those of \<open>movie_dict\<close> below. The fields
  copied from the details carry the prefix \<open>m_\<close>, as a record cannot share field names
  with another one.
\<close>

record movie =
  movie_id :: string
  m_username :: string
  m_movie_name :: string
  m_year :: string
  m_genres :: string
  rating :: string
  m_popularity :: string
  m_vote_average :: string
  m_vote_count :: string

record scraper =
  username :: string
  base_url :: string
  movies_data :: "movie list"

definition init :: "string \<Rightarrow> scraper" where
  \<comment> \<open>\<^verbatim>\<open>__init__\<close>; the request headers are a constant of every request and left out\<close>
  "init name = \<lparr>username = name, base_url = ''https://letterboxd.com'', movies_data = []\<rparr>"

definition raise_for_status :: "nat \<Rightarrow> bool" where
  \<comment> \<open>whether \<^verbatim>\<open>response.raise_for_status()\<close> raises \<^verbatim>\<open>HTTPError\<close>, a \<^verbatim>\<open>RequestException\<close>\<close>
  "raise_for_status status = (400 \<le> status \<and> status < 600)"

definition get_page :: "env \<Rightarrow> string \<Rightarrow> world \<Rightarrow> (exn + element option) \<times> world" where
  "get_page ev url w =
     (case http_get ev w url of
        Response status soup \<Rightarrow>
          if raise_for_status status then (Inr None, w @ [GET url])
          else (Inr (Some (soup, [])), w @ [GET url])
      | RequestException msg \<Rightarrow> (Inr None, w @ [GET url])
      | Raises e \<Rightarrow> (Inl e, w @ [GET url]))"

definition get_num_pages :: "env \<Rightarrow> scraper \<Rightarrow> string \<Rightarrow> world \<Rightarrow> (exn + int) \<times> world" where
  "get_num_pages ev self section w =
     (let url = (if section = ''likes/films''
                 then base_url self @ ''/'' @ username self @ ''/likes/films/''
                 else base_url self @ ''/'' @ username self @ ''/'' @ section @ ''/'')
      in case get_page ev url w of
           (Inl e, w') \<Rightarrow> (Inl e, w')
         | (Inr None, w') \<Rightarrow> (Inr 1, w')
         | (Inr (Some soup), w') \<Rightarrow>
             (case find (\<lambda>t. named ''div'' t \<and> class_is ''pagination'' t) soup of
                None \<Rightarrow> (Inr 1, w')
              | Some pagination \<Rightarrow>
                  (let page_links =
                         find_all (\<lambda>t. named ''li'' t \<and> class_is ''paginate-page'' t) pagination
                   in if page_links \<noteq> [] then
                        (case py_int (int_max_str_digits ev)
                                (strip (text_of (fst (last page_links)))) of
                           Some n \<Rightarrow> (Inr n, w')
                         | None \<Rightarrow> (Inr 1, w'))
                      else (Inr 1, w'))))"

definition movie_details_of :: "element \<Rightarrow> details" where
  \<comment> \<open>the dictionary \<^verbatim>\<open>details\<close> that \<^verbatim>\<open>get_movie_details\<close> fills from a fetched page\<close>
  "movie_details_of soup =
     \<lparr>movie_name =
        (case find (\<lambda>t. named ''h1'' t \<and> class_is ''headline-1'' t) soup of
           Some title_elem \<Rightarrow>
             replace_char (CHR 0xA0) (CHR '' '') (get_text_strip (fst title_elem))
         | None \<Rightarrow> ''N/A''),
      year =
        (case find (\<lambda>t. named ''small'' t \<and> class_is ''number'' t) soup of
           Some year_elem \<Rightarrow> strip (text_of (fst year_elem))
         | None \<Rightarrow> ''N/A''),
      genres =
        (let genre_links =
               find_all (\<lambda>t. named ''a'' t \<and> attr_search ''href'' ''/films/genre/'' t) soup
         in if genre_links \<noteq> []
            then join '', '' (map (\<lambda>g. strip (text_of (fst g))) genre_links)
            else ''N/A''),
      vote_average =
        (case find (\<lambda>t. named ''meta'' t \<and> attr_is ''name'' ''twitter:data2'' t) soup of
           Some rating_meta \<Rightarrow>
             (let content = (case get_attr (fst rating_meta) ''content'' of
                               Some c \<Rightarrow> c | None \<Rightarrow> [])
              in case search_out_of content of
                   Some rating_match \<Rightarrow> rating_match
                 | None \<Rightarrow> ''N/A'')
         | None \<Rightarrow> ''N/A''),
      vote_count =
        (case find (\<lambda>t. named ''a'' t \<and> attr_search ''href'' ''rating-histogram'' t) soup of
           Some histogram_link \<Rightarrow>
             (case search_count (get_text_strip (fst histogram_link)) of
                Some count_match \<Rightarrow> remove_char (CHR '','') count_match
              | None \<Rightarrow> ''N/A'')
         | None \<Rightarrow> ''N/A''),
      popularity =
        (case find (\<lambda>t. named ''a'' t \<and> class_is ''has-icon'' t \<and>
                        attr_search ''href'' ''/fans/'' t) soup of
           Some fans_link \<Rightarrow>
             (case search_count (get_text_strip (fst fans_link)) of
                Some fans_match \<Rightarrow> remove_char (CHR '','') fans_match
              | None \<Rightarrow> ''0'')
         | None \<Rightarrow> ''0'')\<rparr>"

definition get_movie_details ::
  "env \<Rightarrow> string \<Rightarrow> world \<Rightarrow> (exn + details option) \<times> world" where
  \<comment> \<open>\<^verbatim>\<open>except Exception\<close> lets \<^verbatim>\<open>KeyboardInterrupt\<close> pass; nothing raises while the
      dictionary is filled\<close>
  "get_movie_details ev movie_url w =
     (case get_page ev movie_url w of
        (Inl KeyboardInterrupt, w') \<Rightarrow> (Inl KeyboardInterrupt, w')
      | (Inl (Exception msg), w') \<Rightarrow> (Inr None, w')
      | (Inr None, w') \<Rightarrow> (Inr None, w')
      | (Inr (Some soup), w') \<Rightarrow> (Inr (Some (movie_details_of soup)), w'))"

definition rating_of_class :: "env \<Rightarrow> string \<Rightarrow> string option" where
  \<comment> \<open>one iteration of the loop over the classes of the rating span: the string it
      returns, or \<open>None\<close> when the loop goes on; the bare \<^verbatim>\<open>except\<close> turns \<^verbatim>\<open>IndexError\<close>,
      \<^verbatim>\<open>ValueError\<close> and \<^verbatim>\<open>OverflowError\<close> into the next iteration\<close>
  "rating_of_class ev cls =
     (if startswith cls ''rated-'' then
        (case split (CHR ''-'') cls of
           a # b # rest \<Rightarrow>
             (case py_int (int_max_str_digits ev) b of
                Some rating_value \<Rightarrow> str_half (float_repr ev) rating_value
              | None \<Rightarrow> None)
         | _ \<Rightarrow> None)
      else None)"

fun rated_classes :: "env \<Rightarrow> string list \<Rightarrow> string" where
  \<comment> \<open>the loop, and the final \<^verbatim>\<open>return 'Not Rated'\<close>\<close>
  "rated_classes ev [] = ''Not Rated''"
| "rated_classes ev (cls # classes) =
     (case rating_of_class ev cls of
        Some s \<Rightarrow> s
      | None \<Rightarrow> rated_classes ev classes)"

definition extract_user_rating :: "env \<Rightarrow> element \<Rightarrow> string" where
  "extract_user_rating ev poster_div =
     (case find_parent (named ''li'') poster_div of
        Some parent \<Rightarrow>
          (case find (\<lambda>t. named ''span'' t \<and> class_search ''rated-'' t) parent of
             Some rating_span \<Rightarrow>
               rated_classes ev (case get_class (fst rating_span) of
                                   Some classes \<Rightarrow> classes | None \<Rightarrow> [])
           | None \<Rightarrow> ''Not Rated'')
      | None \<Rightarrow> ''Not Rated'')"

text \<open>
  The body of the loop over the items of one listing page. The result is the exception
  that leaves it, if any, with the scraper and the world as they are then: a record
  appended before the exception stays appended. The name shown while fetching
  (\<^verbatim>\<open>movie_name_preview\<close>) and the counter \<^verbatim>\<open>movies_found\<close> are only printed.
\<close>

definition scrape_item ::
  "env \<Rightarrow> scraper \<Rightarrow> element \<Rightarrow> world \<Rightarrow> exn option \<times> scraper \<times> world" where
  "scrape_item ev self item w =
     (let target_link = (case get_attr (fst item) ''data-target-link'' of
                           Some l \<Rightarrow> l | None \<Rightarrow> [])
      in if target_link = [] \<or> \<not> contains ''/film/'' target_link then (None, self, w)
         else
           let movie_slug = last (split (CHR ''/'') (strip_char (CHR ''/'') target_link))
           in if \<exists>m \<in> set (movies_data self). movie_id m = movie_slug then (None, self, w)
              else
                let movie_url = base_url self @ ''/film/'' @ movie_slug @ ''/'';
                    user_rating = extract_user_rating ev item
                in case get_movie_details ev movie_url w of
                     (Inl e, w') \<Rightarrow> (Some e, self, w')
                   | (Inr movie_details, w') \<Rightarrow>
                       (let self' =
                              (case movie_details of
                                 Some d \<Rightarrow>
                                   self\<lparr>movies_data := movies_data self @
                                     [\<lparr>movie_id = movie_slug,
                                       m_username = username self,
                                       m_movie_name = movie_name d,
                                       m_year = year d,
                                       m_genres = genres d,
                                       rating = user_rating,
                                       m_popularity = popularity d,
                                       m_vote_average = vote_average d,
                                       m_vote_count = vote_count d\<rparr>]\<rparr>
                               | None \<Rightarrow> self)
                        in case sleep ev 1500 w' of (e, w'') \<Rightarrow> (e, self', w'')))"

fun scrape_items ::
  "env \<Rightarrow> element list \<Rightarrow> scraper \<Rightarrow> world \<Rightarrow> exn option \<times> scraper \<times> world" where
  "scrape_items ev [] self w = (None, self, w)"
| "scrape_items ev (item # movie_items) self w =
     (case scrape_item ev self item w of
        (Some e, self', w') \<Rightarrow> (Some e, self', w')
      | (None, self', w') \<Rightarrow> scrape_items ev movie_items self' w')"

definition scrape_page ::
  "env \<Rightarrow> string \<Rightarrow> int \<Rightarrow> int \<Rightarrow> scraper \<Rightarrow> world \<Rightarrow> exn option \<times> scraper \<times> world" where
  \<comment> \<open>the body of the loop over the pages\<close>
  "scrape_page ev section total_pages page self w =
     (let url = (if section = ''likes/films''
                 then base_url self @ ''/'' @ username self @ ''/likes/films/page/'' @
                      decimal (nat page) @ ''/''
                 else base_url self @ ''/'' @ username self @ ''/'' @ section @ ''/page/'' @
                      decimal (nat page) @ ''/'')
      in case get_page ev url w of
           (Inl e, w') \<Rightarrow> (Some e, self, w')
         | (Inr None, w') \<Rightarrow> (None, self, w')
         | (Inr (Some soup), w') \<Rightarrow>
             (let movie_items =
                    find_all (\<lambda>t. named ''div'' t \<and> class_is ''react-component'' t \<and>
                                   has_attr ''data-target-link'' t) soup
              in if movie_items = [] then (None, self, w')
                 else case scrape_items ev movie_items self w' of
                        (Some e, self', w'') \<Rightarrow> (Some e, self', w'')
                      | (None, self', w'') \<Rightarrow>
                          if page < total_pages
                          then (case sleep ev 2000 w'' of (e, w''') \<Rightarrow> (e, self', w'''))
                          else (None, self', w'')))"

fun scrape_pages ::
  "env \<Rightarrow> string \<Rightarrow> int \<Rightarrow> int list \<Rightarrow> scraper \<Rightarrow> world \<Rightarrow> exn option \<times> scraper \<times> world"
  where
  "scrape_pages ev section total_pages [] self w = (None, self, w)"
| "scrape_pages ev section total_pages (page # pages) self w =
     (case scrape_page ev section total_pages page self w of
        (Some e, self', w') \<Rightarrow> (Some e, self', w')
      | (None, self', w') \<Rightarrow> scrape_pages ev section total_pages pages self' w')"

definition scrape_section ::
  "env \<Rightarrow> string \<Rightarrow> int option \<Rightarrow> scraper \<Rightarrow> world \<Rightarrow> (exn + movie list) \<times> scraper \<times> world"
  where
  \<comment> \<open>\<^verbatim>\<open>if max_pages:\<close> is false for \<^verbatim>\<open>None\<close> and for 0; \<^verbatim>\<open>range(1, total_pages + 1)\<close> is
      \<open>[1..total_pages]\<close>\<close>
  "scrape_section ev section max_pages self w =
     (case get_num_pages ev self section w of
        (Inl e, w') \<Rightarrow> (Inl e, self, w')
      | (Inr n, w') \<Rightarrow>
          (let total_pages = (case max_pages of
                                Some m \<Rightarrow> if m \<noteq> 0 then min n m else n
                              | None \<Rightarrow> n)
           in case scrape_pages ev section total_pages [1..total_pages] self w' of
                (Some e, self', w'') \<Rightarrow> (Inl e, self', w'')
              | (None, self', w'') \<Rightarrow> (Inr (movies_data self'), self', w'')))"

fun scrape_sections ::
  "env \<Rightarrow> string list \<Rightarrow> int option \<Rightarrow> scraper \<Rightarrow> world \<Rightarrow> scraper \<times> world" where
  \<comment> \<open>the loop of \<^verbatim>\<open>scrape_all_sections\<close>: \<^verbatim>\<open>break\<close> on \<^verbatim>\<open>KeyboardInterrupt\<close>, \<^verbatim>\<open>continue\<close> on
      any \<^verbatim>\<open>Exception\<close>\<close>
  "scrape_sections ev [] max_pages_per_section self w = (self, w)"
| "scrape_sections ev (section # sections) max_pages_per_section self w =
     (case scrape_section ev section max_pages_per_section self w of
        (Inl KeyboardInterrupt, self', w') \<Rightarrow> (self', w')
      | (Inl (Exception msg), self', w') \<Rightarrow>
          scrape_sections ev sections max_pages_per_section self' w'
      | (Inr r, self', w') \<Rightarrow> scrape_sections ev sections max_pages_per_section self' w')"

definition scrape_all_sections ::
  "env \<Rightarrow> string list option \<Rightarrow> int option \<Rightarrow> scraper \<Rightarrow> world \<Rightarrow>
   movie list \<times> scraper \<times> world" where
  "scrape_all_sections ev sections max_pages_per_section self w =
     (let sections = (case sections of
                        None \<Rightarrow> [''films'', ''reviews'', ''diary'', ''watchlist'', ''likes/films'']
                      | Some ss \<Rightarrow> ss)
      in case scrape_sections ev sections max_pages_per_section self w of
           (self', w') \<Rightarrow> (movies_data self', self', w'))"

subsection \<open>The export\<close>

text \<open>
  \<^verbatim>\<open>csv.DictWriter\<close> with the default dialect: a field is quoted when it holds a comma, a
  quote, a carriage return or a line feed, a quote inside is doubled, fields are joined by
  commas and a row ends with \<^verbatim>\<open>\r\n\<close>. The file is the text written to it; opening or
  writing may raise \<^verbatim>\<open>OSError\<close>, which \<open>io_fails\<close> decides by the file's name, and nothing
  is promised of the file then.
\<close>

definition csv_field :: "string \<Rightarrow> string" where
  "csv_field f =
     (if \<exists>c \<in> set f. c = CHR '','' \<or> c = CHR 0x22 \<or> c = CHR 0x0D \<or> c = CHR 0x0A
      then [CHR 0x22] @ concat (map (\<lambda>c. if c = CHR 0x22 then [c, c] else [c]) f) @ [CHR 0x22]
      else f)"

definition csv_row :: "string list \<Rightarrow> string" where
  \<comment> \<open>\<^verbatim>\<open>writer.writerow\<close> on a row of two fields or more\<close>
  "csv_row row = join '','' (map csv_field row) @ [CHR 0x0D, CHR 0x0A]"

definition movie_dict :: "movie \<Rightarrow> (string \<times> string) list" where
  \<comment> \<open>the dictionary \<^verbatim>\<open>movie_data\<close> as \<^verbatim>\<open>scrape_section\<close> builds it\<close>
  "movie_dict m =
     [(''movie_id'', movie_id m), (''username'', m_username m),
      (''movie_name'', m_movie_name m), (''year'', m_year m), (''genres'', m_genres m),
      (''rating'', rating m), (''popularity'', m_popularity m),
      (''vote_average'', m_vote_average m), (''vote_count'', m_vote_count m)]"

definition dict_to_list :: "string list \<Rightarrow> (string \<times> string) list \<Rightarrow> string list" where
  \<comment> \<open>\<^verbatim>\<open>DictWriter._dict_to_list\<close>: \<^verbatim>\<open>rowdict.get(key, '')\<close> for each field name; no key of
      \<open>movie_dict\<close> is outside the field names, so \<^verbatim>\<open>extrasaction='raise'\<close> never raises\<close>
  "dict_to_list fieldnames rowdict =
     map (\<lambda>key. case map_of rowdict key of Some v \<Rightarrow> v | None \<Rightarrow> []) fieldnames"

definition save_to_csv ::
  "(string \<Rightarrow> bool) \<Rightarrow> string \<Rightarrow> scraper \<Rightarrow> string option \<Rightarrow>
   string option \<times> (string \<times> string) option" where
  \<comment> \<open>the value returned, and the file written: its name and its text. \<open>timestamp\<close> is
      \<^verbatim>\<open>datetime.now().strftime("%Y%m%d_%H%M%S")\<close>\<close>
  "save_to_csv io_fails timestamp self filename =
     (if movies_data self = [] then (None, None)
      else
        let filename = (case filename of
                          None \<Rightarrow> username self @ ''_letterboxd_'' @ timestamp @ ''.csv''
                        | Some f \<Rightarrow> f);
            fieldnames = [''movie_id'', ''username'', ''movie_name'', ''year'', ''genres'',
                          ''rating'', ''popularity'', ''vote_average'', ''vote_count'']
        in if io_fails filename then (None, None)
           else (Some filename,
                 Some (filename,
                       csv_row fieldnames @
                       concat (map (\<lambda>m. csv_row (dict_to_list fieldnames (movie_dict m)))
                                   (movies_data self)))))"
section \<open>Accumulation, and sample runs\<close>

text \<open>
  How the scraper's state may change from one point of a run to a later one: the user and
  the base URL stay, records are only appended, and identifiers that were pairwise
  distinct stay so.
\<close>

definition grows :: "scraper \<Rightarrow> scraper \<Rightarrow> bool" where
  "grows s s' =
     (username s' = username s \<and> base_url s' = base_url s \<and>
      prefix (movies_data s) (movies_data s') \<and>
      (distinct (map movie_id (movies_data s)) \<longrightarrow> distinct (map movie_id (movies_data s'))))"

text \<open>A film page with a title and nothing else.\<close>

definition title_page :: node where
  "title_page = Tag ''[document]'' []
     [Tag ''h1'' [(''class'', ''headline-1 primaryname'')] [NavigableString ''Heat'']]"

text \<open>
  An environment where the first request for a URL times out and a second one would be
  answered, and where one film is gone.
\<close>

definition flaky :: env where
  "flaky =
     \<lparr>http_get = (\<lambda>w url. if GET url \<in> set w then Response 200 title_page
                           else if url = ''https://letterboxd.com/film/gone/''
                           then Response 404 title_page
                           else RequestException ''timed out''),
      sleep_interrupted = (\<lambda>w. False),
      int_max_str_digits = 4300,
      float_repr = (\<lambda>v. ''?'')\<rparr>"

text \<open>
  A site with two listings: the films of the user, with one rated film, and the
  watchlist, with the same film again and a second one. Every film has the same page.
\<close>

definition heat_item :: node where
  "heat_item =
     Tag ''div'' [(''class'', ''react-component''), (''data-target-link'', ''/film/heat/'')] []"

definition ronin_item :: node where
  "ronin_item =
     Tag ''div'' [(''class'', ''react-component''), (''data-target-link'', ''/film/ronin/'')] []"

definition rated_li :: node where
  "rated_li =
     Tag ''li'' [(''class'', ''griditem'')]
       [heat_item, Tag ''span'' [(''class'', ''rating -micro rated-7'')] []]"

definition films_page :: node where
  "films_page = Tag ''[document]'' [] [rated_li]"

definition watchlist_page :: node where
  "watchlist_page = Tag ''[document]'' []
     [Tag ''li'' [(''class'', ''griditem'')] [heat_item],
      Tag ''li'' [(''class'', ''griditem'')] [ronin_item]]"

definition site :: env where
  "site =
     \<lparr>http_get = (\<lambda>w url. if contains ''/film/'' url then Response 200 title_page
                           else if contains ''/watchlist/'' url then Response 200 watchlist_page
                           else Response 200 films_page),
      sleep_interrupted = (\<lambda>w. False),
      int_max_str_digits = 4300,
      float_repr = (\<lambda>v. ''?'')\<rparr>"

definition heat :: movie where
  "heat = \<lparr>movie_id = ''heat'', m_username = ''bob'', m_movie_name = ''Heat'',
           m_year = ''N/A'', m_genres = ''N/A'', rating = ''3.5'', m_popularity = ''0'',
           m_vote_average = ''N/A'', m_vote_count = ''N/A''\<rparr>"

definition ronin :: movie where
  "ronin = \<lparr>movie_id = ''ronin'', m_username = ''bob'', m_movie_name = ''Heat'',
            m_year = ''N/A'', m_genres = ''N/A'', rating = ''Not Rated'', m_popularity = ''0'',
            m_vote_average = ''N/A'', m_vote_count = ''N/A''\<rparr>"

text \<open>
  The same site when the parser rejects the markup of the films listing, and when the user
  interrupts the first pause.
\<close>

definition broken :: env where
  "broken =
     site\<lparr>http_get := (\<lambda>w url. if contains ''/films/'' url
                                 then Raises (Exception ''ParserRejectedMarkup'')
                                 else http_get site w url)\<rparr>"

definition impatient :: env where
  "impatient = site\<lparr>sleep_interrupted := (\<lambda>w. True)\<rparr>"

text \<open>A component of a listing that links to a member, not to a film.\<close>

definition member_item :: node where
  "member_item =
     Tag ''div'' [(''class'', ''react-component''), (''data-target-link'', ''/bob/lists/'')] []"

text \<open>
  A listing whose pagination control ends with a page-number link of a given text, and an
  environment that answers every request with a given page.
\<close>

definition paginated :: "string \<Rightarrow> node" where
  "paginated last_text = Tag ''[document]'' []
     [Tag ''div'' [(''class'', ''pagination'')]
        [Tag ''ul'' []
           [Tag ''li'' [(''class'', ''paginate-page'')] [Tag ''a'' [] [NavigableString ''1'']],
            Tag ''li'' [(''class'', ''paginate-page'')]
              [Tag ''a'' [] [NavigableString last_text]]]]]"

definition serving :: "node \<Rightarrow> env" where
  "serving page = site\<lparr>http_get := (\<lambda>w url. Response 200 page)\<rparr>"

definition answering :: "nat \<Rightarrow> node \<Rightarrow> env" where
  \<comment> \<open>every request is answered with the given status and page\<close>
  "answering status page = site\<lparr>http_get := (\<lambda>w url. Response status page)\<rparr>"

text \<open>
  A film page that has the element of the average, of the vote count and of the fans, none
  of them with the text its pattern looks for.
\<close>

definition sparse_page :: node where
  "sparse_page = Tag ''[document]'' []
     [Tag ''meta'' [(''name'', ''twitter:data2''), (''content'', ''not out of five yet'')] [],
      Tag ''a'' [(''href'', ''/film/heat/rating-histogram/'')] [NavigableString ''No ratings''],
      Tag ''a'' [(''class'', ''has-icon''), (''href'', ''/film/heat/fans/'')]
        [NavigableString ''Fans'']]"

section \<open>Splitting and stripping\<close>

lemma split_where_nonempty: "split_where P s \<noteq> []"
  by (induction s) (auto split: list.splits)

lemma length_split_where: "length (split_where P s) = Suc (length (filter P s))"
  by (induction s) (auto split: list.splits simp: split_where_nonempty)

lemma split_where_single:
  assumes "\<forall>c \<in> set s. \<not> P c"
  shows "split_where P s = [s]"
  using assms by (induction s) auto

lemma last_split_where:
  "last (split_where P s) = rev (takeWhile (\<lambda>c. \<not> P c) (rev s))"
proof (induction s)
  case Nil
  show ?case by simp
next
  case (Cons x xs)
  show ?case
  proof (cases "P x")
    case True
    then show ?thesis
      using Cons.IH by (simp add: split_where_nonempty takeWhile_append)
  next
    case False
    show ?thesis
    proof (cases "\<forall>c \<in> set xs. \<not> P c")
      case True
      with False have "\<forall>c \<in> set (rev (x # xs)). \<not> P c" by simp
      then have "takeWhile (\<lambda>c. \<not> P c) (rev (x # xs)) = rev (x # xs)"
        by (simp only: takeWhile_eq_all_conv)
      moreover from True False have "split_where P (x # xs) = [x # xs]"
        by (intro split_where_single) simp
      ultimately show ?thesis by (simp only: last.simps rev_rev_ident simp_thms if_True)
    next
      case some: False
      then have "filter P xs \<noteq> []" by (auto simp: filter_empty_conv)
      then have "2 \<le> length (split_where P xs)" by (simp add: length_split_where Suc_le_eq)
      then obtain y z zs where sp: "split_where P xs = y # z # zs"
        by (cases "split_where P xs"; cases "tl (split_where P xs)") auto
      from some have "\<not> (\<forall>c \<in> set (rev xs). \<not> P c)" by simp
      then have tw: "takeWhile (\<lambda>c. \<not> P c) (rev xs @ [x]) = takeWhile (\<lambda>c. \<not> P c) (rev xs)"
        by (auto simp: takeWhile_append)
      from False sp Cons.IH tw show ?thesis by simp
    qed
  qed
qed

lemma last_split_where_shape:
  "\<exists>pre. s = pre @ last (split_where P s) \<and> (pre = [] \<or> P (last pre)) \<and>
         (\<forall>c \<in> set (last (split_where P s)). \<not> P c)"
proof -
  let ?Q = "\<lambda>c. \<not> P c"
  let ?pre = "rev (dropWhile ?Q (rev s))"
  have "s = rev (takeWhile ?Q (rev s) @ dropWhile ?Q (rev s))" by simp
  then have a: "s = ?pre @ last (split_where P s)"
    by (simp only: rev_append last_split_where)
  have b: "?pre = [] \<or> P (last ?pre)"
  proof (cases "dropWhile ?Q (rev s)")
    case Nil
    then show ?thesis by simp
  next
    case (Cons d ds)
    then have "P d" using hd_dropWhile [of ?Q "rev s"] by auto
    with Cons show ?thesis by simp
  qed
  have c: "\<forall>c \<in> set (last (split_where P s)). \<not> P c"
    by (auto simp: last_split_where dest: set_takeWhileD)
  from a b c show ?thesis by blast
qed

lemma strip_where_shape:
  "\<exists>xs ys. s = xs @ strip_where P s @ ys \<and> (\<forall>c \<in> set xs. P c) \<and> (\<forall>c \<in> set ys. P c) \<and>
           (strip_where P s \<noteq> [] \<longrightarrow> \<not> P (hd (strip_where P s)) \<and> \<not> P (last (strip_where P s)))"
proof -
  let ?t = "dropWhile P s"
  let ?ys = "rev (takeWhile P (rev ?t))"
  have t: "?t = strip_where P s @ ?ys"
  proof -
    have "?t = rev (takeWhile P (rev ?t) @ dropWhile P (rev ?t))" by simp
    then show ?thesis by (simp only: rev_append strip_where_def)
  qed
  have s: "s = takeWhile P s @ strip_where P s @ ?ys"
    using t takeWhile_dropWhile_id [of P s] by metis
  have xs: "\<forall>c \<in> set (takeWhile P s). P c" by (auto dest: set_takeWhileD)
  have ys: "\<forall>c \<in> set ?ys. P c" by (auto dest: set_takeWhileD)
  have ends: "strip_where P s \<noteq> [] \<longrightarrow>
                \<not> P (hd (strip_where P s)) \<and> \<not> P (last (strip_where P s))"
  proof
    assume ne: "strip_where P s \<noteq> []"
    then have d: "dropWhile P (rev ?t) \<noteq> []" by (simp add: strip_where_def)
    then have l: "\<not> P (last (strip_where P s))"
      using hd_dropWhile [of P "rev ?t"] by (simp add: strip_where_def last_rev)
    from ne t have "?t \<noteq> []" by (metis Nil_is_append_conv)
    then have "\<not> P (hd ?t)" using hd_dropWhile [of P s] by simp
    with t ne have "\<not> P (hd (strip_where P s))" by (metis hd_append2)
    with l show "\<not> P (hd (strip_where P s)) \<and> \<not> P (last (strip_where P s))" by simp
  qed
  from s xs ys ends show ?thesis by blast
qed

lemma all_eq_replicate: "(\<forall>c \<in> set xs. c = x) \<Longrightarrow> xs = replicate (length xs) x"
  by (induction xs) auto

lemma contains_iff: "contains sub s \<longleftrightarrow> (\<exists>a b. s = a @ sub @ b)"
proof (induction s)
  case Nil
  show ?case by auto
next
  case (Cons c cs)
  show ?case
  proof
    assume "contains sub (c # cs)"
    then consider "prefix sub (c # cs)" | "contains sub cs" by auto
    then show "\<exists>a b. c # cs = a @ sub @ b"
    proof cases
      case 1
      then obtain b where "c # cs = sub @ b" by (auto simp: prefix_def)
      then have "c # cs = [] @ sub @ b" by simp
      then show ?thesis by blast
    next
      case 2
      with Cons.IH obtain a b where "cs = a @ sub @ b" by blast
      then have "c # cs = (c # a) @ sub @ b" by simp
      then show ?thesis by blast
    qed
  next
    assume "\<exists>a b. c # cs = a @ sub @ b"
    then obtain a b where ab: "c # cs = a @ sub @ b" by blast
    show "contains sub (c # cs)"
    proof (cases a)
      case Nil
      with ab have "prefix sub (c # cs)" by (simp add: prefix_def)
      then show ?thesis by simp
    next
      case (Cons a1 as)
      with ab have "cs = as @ sub @ b" by simp
      with Cons.IH have "contains sub cs" by blast
      then show ?thesis by simp
    qed
  qed
qed

lemma slug_shape:
  assumes film: "contains ''/film/'' l"
  shows "\<exists>a b pre. l = replicate a (CHR ''/'') @ pre @
                        last (split (CHR ''/'') (strip_char (CHR ''/'') l)) @
                        replicate b (CHR ''/'') \<and>
           (pre = [] \<or> last pre = CHR ''/'') \<and>
           hd (pre @ last (split (CHR ''/'') (strip_char (CHR ''/'') l))) \<noteq> CHR ''/'' \<and>
           last (split (CHR ''/'') (strip_char (CHR ''/'') l)) \<noteq> [] \<and>
           CHR ''/'' \<notin> set (last (split (CHR ''/'') (strip_char (CHR ''/'') l)))"
proof -
  define t where "t = strip_char (CHR ''/'') l"
  define slug where "slug = last (split (CHR ''/'') t)"
  have t_eq: "t = strip_where (\<lambda>x. x = CHR ''/'') l"
    by (simp add: t_def strip_char_def)
  have slug_eq: "slug = last (split_where (\<lambda>x. x = CHR ''/'') t)"
    by (simp add: slug_def split_def)
  from strip_where_shape [of l "\<lambda>x. x = CHR ''/''"]
  obtain xs ys where a: "l = xs @ strip_where (\<lambda>x. x = CHR ''/'') l @ ys"
    and xs: "\<forall>c \<in> set xs. c = CHR ''/''" and ys: "\<forall>c \<in> set ys. c = CHR ''/''"
    and d: "strip_where (\<lambda>x. x = CHR ''/'') l \<noteq> [] \<longrightarrow>
            hd (strip_where (\<lambda>x. x = CHR ''/'') l) \<noteq> CHR ''/'' \<and>
            last (strip_where (\<lambda>x. x = CHR ''/'') l) \<noteq> CHR ''/''"
    by (elim exE conjE)
  from a have l: "l = xs @ t @ ys" by (simp only: t_eq)
  from d have ends: "t \<noteq> [] \<longrightarrow> hd t \<noteq> CHR ''/'' \<and> last t \<noteq> CHR ''/''"
    by (simp only: t_eq)
  from film obtain u v where "l = u @ ''/film/'' @ v"
    unfolding contains_iff by blast
  then have f: "CHR ''f'' \<in> set l" by simp
  have tne: "t \<noteq> []"
  proof
    assume "t = []"
    with l have "l = xs @ ys" by simp
    with f have "CHR ''f'' \<in> set xs \<union> set ys" by simp
    with xs ys have "CHR ''f'' = CHR ''/''" by auto
    then show False by simp
  qed
  from last_split_where_shape [of t "\<lambda>x. x = CHR ''/''"]
  obtain pre where t': "t = pre @ last (split_where (\<lambda>x. x = CHR ''/'') t)"
    and pre: "pre = [] \<or> last pre = CHR ''/''"
    and clean': "\<forall>c \<in> set (last (split_where (\<lambda>x. x = CHR ''/'') t)). c \<noteq> CHR ''/''"
    by (elim exE conjE)
  from t' have t: "t = pre @ slug" by (simp only: slug_eq)
  from clean' have clean: "\<forall>c \<in> set slug. c \<noteq> CHR ''/''" by (simp only: slug_eq)
  have sne: "slug \<noteq> []"
  proof
    assume "slug = []"
    with t have "t = pre" by simp
    with tne pre have "last t = CHR ''/''" by auto
    with ends tne show False by simp
  qed
  have hd: "hd (pre @ slug) \<noteq> CHR ''/''"
    using ends tne t by simp
  have rx: "replicate (length xs) (CHR ''/'') = xs" using xs by (simp add: replicate_length_same)
  have ry: "replicate (length ys) (CHR ''/'') = ys" using ys by (simp add: replicate_length_same)
  have "l = xs @ pre @ slug @ ys" using l t by simp
  then have shape:
    "l = replicate (length xs) (CHR ''/'') @ pre @ slug @ replicate (length ys) (CHR ''/'')"
    by (simp only: rx ry)
  from clean have nos: "CHR ''/'' \<notin> set slug" by auto
  have "\<exists>a b pre. l = replicate a (CHR ''/'') @ pre @ slug @ replicate b (CHR ''/'') \<and>
           (pre = [] \<or> last pre = CHR ''/'') \<and> hd (pre @ slug) \<noteq> CHR ''/'' \<and>
           slug \<noteq> [] \<and> CHR ''/'' \<notin> set slug"
    by (rule exI [of _ "length xs"], rule exI [of _ "length ys"], rule exI [of _ pre])
       (intro conjI shape pre hd sne nos)
  then show ?thesis unfolding slug_def t_def .
qed

section \<open>The accumulated records\<close>

lemma grows_refl: "grows s s"
  by (simp add: grows_def)

lemma grows_trans: "grows a b \<Longrightarrow> grows b c \<Longrightarrow> grows a c"
  by (auto simp: grows_def intro: prefix_order.trans)

lemma sleep_world: "sleep ev ms w = (e, w') \<Longrightarrow> w' = w @ [Sleep ms]"
  by (auto simp: sleep_def)

lemma scrape_item_cases:
  assumes "scrape_item ev self item w = (e, self', w')"
  shows "self' = self \<or>
         (\<exists>m. self' = self\<lparr>movies_data := movies_data self @ [m]\<rparr> \<and>
              movie_id m \<notin> movie_id ` set (movies_data self))"
proof -
  define slug where
    "slug = last (split (CHR ''/'')
              (strip_char (CHR ''/'')
                 (case get_attr (fst item) ''data-target-link'' of Some l \<Rightarrow> l | None \<Rightarrow> [])))"
  show ?thesis
  proof (cases "\<exists>m \<in> set (movies_data self). movie_id m = slug")
    case True
    with assms show ?thesis
      by (auto simp: scrape_item_def Let_def slug_def split: if_splits)
  next
    case False
    then have fresh: "slug \<notin> movie_id ` set (movies_data self)" by auto
    from assms False have
      "self' = self \<or> (\<exists>m. self' = self\<lparr>movies_data := movies_data self @ [m]\<rparr> \<and> movie_id m = slug)"
      unfolding scrape_item_def Let_def slug_def [symmetric]
      by (auto split: if_splits prod.splits sum.splits option.splits)
    with fresh show ?thesis by auto
  qed
qed

lemma scrape_item_grows:
  assumes "scrape_item ev self item w = (e, self', w')"
  shows "grows self self'"
  using scrape_item_cases [OF assms] by (auto simp: grows_def)

lemma scrape_items_grows:
  "scrape_items ev items self w = (e, self', w') \<Longrightarrow> grows self self'"
proof (induction items arbitrary: self w)
  case Nil
  then show ?case by (simp add: grows_refl)
next
  case (Cons item items)
  obtain e1 s1 w1 where step: "scrape_item ev self item w = (e1, s1, w1)"
    by (cases "scrape_item ev self item w") auto
  have g1: "grows self s1" using step by (rule scrape_item_grows)
  show ?case
  proof (cases e1)
    case None
    with Cons.prems step have "scrape_items ev items s1 w1 = (e, self', w')" by simp
    then have "grows s1 self'" by (rule Cons.IH)
    with g1 show ?thesis by (rule grows_trans)
  next
    case (Some x)
    with Cons.prems step have "self' = s1" by simp
    with g1 show ?thesis by simp
  qed
qed

lemma scrape_page_grows:
  assumes "scrape_page ev section tp page self w = (e, self', w')"
  shows "grows self self'"
  using assms
  by (auto simp: scrape_page_def Let_def grows_refl
           split: if_splits prod.splits sum.splits option.splits
           dest: scrape_items_grows)

lemma scrape_pages_grows:
  "scrape_pages ev section tp pages self w = (e, self', w') \<Longrightarrow> grows self self'"
proof (induction pages arbitrary: self w)
  case Nil
  then show ?case by (simp add: grows_refl)
next
  case (Cons page pages)
  obtain e1 s1 w1 where step: "scrape_page ev section tp page self w = (e1, s1, w1)"
    by (cases "scrape_page ev section tp page self w") auto
  have g1: "grows self s1" using step by (rule scrape_page_grows)
  show ?case
  proof (cases e1)
    case None
    with Cons.prems step have "scrape_pages ev section tp pages s1 w1 = (e, self', w')"
      by simp
    then have "grows s1 self'" by (rule Cons.IH)
    with g1 show ?thesis by (rule grows_trans)
  next
    case (Some x)
    with Cons.prems step have "self' = s1" by simp
    with g1 show ?thesis by simp
  qed
qed

lemma scrape_section_grows:
  assumes "scrape_section ev section max_pages self w = (r, self', w')"
  shows "grows self self'"
  using assms
  by (auto simp: scrape_section_def Let_def grows_refl
           split: prod.splits sum.splits option.splits if_splits
           dest: scrape_pages_grows)

lemma scrape_section_returns:
  assumes "scrape_section ev section max_pages self w = (Inr r, self', w')"
  shows "r = movies_data self'"
  using assms
  by (auto simp: scrape_section_def Let_def
           split: prod.splits sum.splits option.splits if_splits)

lemma scrape_sections_grows:
  "scrape_sections ev sections mp self w = (self', w') \<Longrightarrow> grows self self'"
proof (induction sections arbitrary: self w)
  case Nil
  then show ?case by (simp add: grows_refl)
next
  case (Cons sec sections)
  obtain r s1 w1 where step: "scrape_section ev sec mp self w = (r, s1, w1)"
    by (cases "scrape_section ev sec mp self w") auto
  have g1: "grows self s1" using step by (rule scrape_section_grows)
  show ?case
  proof (cases r)
    case (Inl x)
    show ?thesis
    proof (cases x)
      case KeyboardInterrupt
      with Inl Cons.prems step have "self' = s1" by simp
      with g1 show ?thesis by simp
    next
      case (Exception msg)
      with Inl Cons.prems step have "scrape_sections ev sections mp s1 w1 = (self', w')"
        by simp
      then have "grows s1 self'" by (rule Cons.IH)
      with g1 show ?thesis by (rule grows_trans)
    qed
  next
    case (Inr b)
    with Cons.prems step have "scrape_sections ev sections mp s1 w1 = (self', w')" by simp
    then have "grows s1 self'" by (rule Cons.IH)
    with g1 show ?thesis by (rule grows_trans)
  qed
qed

lemma scrape_all_sections_grows:
  assumes "scrape_all_sections ev sections mp self w = (r, self', w')"
  shows "grows self self' \<and> r = movies_data self'"
  using assms
  by (auto simp: scrape_all_sections_def Let_def split: prod.splits dest: scrape_sections_grows)

lemma known_slug_skipped:
  assumes "get_attr (fst item) ''data-target-link'' = Some l"
    and "last (split (CHR ''/'') (strip_char (CHR ''/'') l)) \<in> movie_id ` set (movies_data self)"
  shows "scrape_item ev self item w = (None, self, w)"
  using assms by (auto simp: scrape_item_def Let_def)

lemma grows_same_id:
  assumes g: "grows s s'" and d: "distinct (map movie_id (movies_data s))"
    and m: "m \<in> set (movies_data s)" and m': "m' \<in> set (movies_data s')"
    and eq: "movie_id m' = movie_id m"
  shows "m' = m"
proof -
  from g d have d': "distinct (map movie_id (movies_data s'))" by (simp add: grows_def)
  from g have "set (movies_data s) \<subseteq> set (movies_data s')"
    by (auto simp: grows_def dest: set_mono_prefix)
  with m have "m \<in> set (movies_data s')" by auto
  with d' m' eq show ?thesis by (auto simp: distinct_map dest: inj_onD)
qed

lemma get_page_world: "snd (get_page ev url w) = w @ [GET url]"
  by (cases "http_get ev w url") (simp_all add: get_page_def)

lemma get_movie_details_world: "snd (get_movie_details ev url w) = w @ [GET url]"
proof -
  obtain r w1 where gp: "get_page ev url w = (r, w1)"
    by (cases "get_page ev url w") auto
  with get_page_world [of ev url w] have w1: "w1 = w @ [GET url]" by simp
  show ?thesis
    by (simp add: get_movie_details_def gp w1
             split: sum.splits exn.splits option.splits)
qed

lemma fresh_slug_fetched:
  assumes "get_attr (fst item) ''data-target-link'' = Some l"
    and "contains ''/film/'' l"
    and "last (split (CHR ''/'') (strip_char (CHR ''/'') l)) \<notin> movie_id ` set (movies_data self)"
  shows "prefix (w @ [GET (base_url self @ ''/film/'' @
                       last (split (CHR ''/'') (strip_char (CHR ''/'') l)) @ ''/'')])
                (snd (snd (scrape_item ev self item w)))"
proof -
  let ?url = "base_url self @ ''/film/'' @ last (split (CHR ''/'') (strip_char (CHR ''/'') l)) @ ''/''"
  obtain r w1 where d: "get_movie_details ev ?url w = (r, w1)"
    by (cases "get_movie_details ev ?url w") auto
  with get_movie_details_world [of ev ?url w] have w1: "w1 = w @ [GET ?url]" by simp
  from assms(2) have ne: "l \<noteq> []" by auto
  from assms(3) have fresh:
    "\<not> (\<exists>m \<in> set (movies_data self).
          movie_id m = last (split (CHR ''/'') (strip_char (CHR ''/'') l)))"
    by force
  show ?thesis
  proof (cases r)
    case (Inl e)
    with assms(1,2) ne fresh d w1 show ?thesis
      by (simp add: scrape_item_def Let_def)
  next
    case (Inr md)
    with assms(1,2) ne fresh d w1 show ?thesis
      by (simp add: scrape_item_def Let_def sleep_def)
  qed
qed

lemma not_film_discarded:
  assumes "get_attr (fst item) ''data-target-link'' = None \<or>
           (\<exists>k. get_attr (fst item) ''data-target-link'' = Some k \<and> \<not> contains ''/film/'' k)"
  shows "scrape_item ev self item w = (None, self, w)"
  using assms by (auto simp: scrape_item_def Let_def)

lemma fresh_slug_recorded:
  assumes "get_attr (fst item) ''data-target-link'' = Some l"
    and "contains ''/film/'' l"
    and "last (split (CHR ''/'') (strip_char (CHR ''/'') l)) \<notin> movie_id ` set (movies_data self)"
    and "get_movie_details ev
           (base_url self @ ''/film/'' @ last (split (CHR ''/'') (strip_char (CHR ''/'') l)) @ ''/'')
           w = (Inr (Some d), w1)"
  shows "map movie_id (movies_data (fst (snd (scrape_item ev self item w)))) =
         map movie_id (movies_data self) @ [last (split (CHR ''/'') (strip_char (CHR ''/'') l))]"
proof -
  from assms(2) have ne: "l \<noteq> []" by auto
  from assms(3) have fresh:
    "\<not> (\<exists>m \<in> set (movies_data self).
          movie_id m = last (split (CHR ''/'') (strip_char (CHR ''/'') l)))"
    by force
  show ?thesis
    using assms(1,2,4) ne fresh
    by (simp add: scrape_item_def Let_def split: prod.splits)
qed

lemma find_all_Nil_iff:
  "find_all p e = [] \<longleftrightarrow> (\<forall>d \<in> set (descendants (snd e) (fst e)). \<not> p (fst d))"
  by (auto simp: find_all_def filter_empty_conv)

lemma find_None_iff:
  "find p e = None \<longleftrightarrow> (\<forall>d \<in> set (descendants (snd e) (fst e)). \<not> p (fst d))"
proof -
  have "find p e = None \<longleftrightarrow> find_all p e = []"
    by (cases "find_all p e") (simp_all add: find_def)
  then show ?thesis by (simp only: find_all_Nil_iff)
qed

lemma details_defaults:
  "(find (\<lambda>t. named ''h1'' t \<and> class_is ''headline-1'' t) soup = None \<longrightarrow>
      movie_name (movie_details_of soup) = ''N/A'') \<and>
   (find (\<lambda>t. named ''small'' t \<and> class_is ''number'' t) soup = None \<longrightarrow>
      year (movie_details_of soup) = ''N/A'') \<and>
   (find_all (\<lambda>t. named ''a'' t \<and> attr_search ''href'' ''/films/genre/'' t) soup = [] \<longrightarrow>
      genres (movie_details_of soup) = ''N/A'') \<and>
   (find (\<lambda>t. named ''meta'' t \<and> attr_is ''name'' ''twitter:data2'' t) soup = None \<longrightarrow>
      vote_average (movie_details_of soup) = ''N/A'') \<and>
   (find (\<lambda>t. named ''a'' t \<and> attr_search ''href'' ''rating-histogram'' t) soup = None \<longrightarrow>
      vote_count (movie_details_of soup) = ''N/A'') \<and>
   (find (\<lambda>t. named ''a'' t \<and> class_is ''has-icon'' t \<and> attr_search ''href'' ''/fans/'' t) soup = None \<longrightarrow>
      popularity (movie_details_of soup) = ''0'')"
  by (simp add: movie_details_of_def)

lemma search_out_of_Some:
  "search_out_of s = Some r \<Longrightarrow>
   \<exists>a sp b. s = a @ r @ sp @ ''out of'' @ b \<and> r \<noteq> [] \<and> (\<forall>c \<in> set r. num_char c) \<and>
            sp \<noteq> [] \<and> (\<forall>c \<in> set sp. isspace c)"
proof (induction s)
  case Nil
  then show ?case by simp
next
  case (Cons c cs)
  let ?run = "takeWhile num_char (c # cs)"
  let ?rest = "dropWhile num_char (c # cs)"
  let ?sp = "takeWhile isspace ?rest"
  show ?case
  proof (cases "?run \<noteq> [] \<and> ?sp \<noteq> [] \<and> prefix ''out of'' (dropWhile isspace ?rest)")
    case True
    from Cons.prems have r: "r = ?run"
      unfolding search_out_of.simps Let_def if_P [OF True] by simp
    from True obtain b where b: "dropWhile isspace ?rest = ''out of'' @ b"
      by (auto simp: prefix_def)
    have "c # cs = ?run @ ?rest" by (simp only: takeWhile_dropWhile_id)
    also have "?rest = ?sp @ dropWhile isspace ?rest" by (simp only: takeWhile_dropWhile_id)
    finally have "c # cs = [] @ r @ ?sp @ ''out of'' @ b" by (simp only: b r append_Nil)
    moreover from True r have "r \<noteq> []" by simp
    moreover have "\<forall>x \<in> set r. num_char x" unfolding r by (auto dest: set_takeWhileD)
    moreover from True have "?sp \<noteq> []" by simp
    moreover have "\<forall>x \<in> set ?sp. isspace x" by (auto dest: set_takeWhileD)
    ultimately show ?thesis by (intro exI conjI)
  next
    case False
    from Cons.prems have "search_out_of cs = Some r"
      unfolding search_out_of.simps Let_def if_not_P [OF False] .
    from Cons.IH [OF this] obtain a sp b where
      "cs = a @ r @ sp @ ''out of'' @ b" and rest: "r \<noteq> []" "\<forall>c \<in> set r. num_char c"
      "sp \<noteq> []" "\<forall>c \<in> set sp. isspace c"
      by (elim exE conjE)
    hence "c # cs = (c # a) @ r @ sp @ ''out of'' @ b" by simp
    with rest show ?thesis by (intro exI conjI)
  qed
qed

lemma search_count_None: "search_count s = None \<longleftrightarrow> (\<forall>c \<in> set s. \<not> count_char c)"
proof (cases "dropWhile (\<lambda>c. \<not> count_char c) s")
  case Nil
  have "search_count s = None" unfolding search_count_def Nil by simp
  moreover from Nil have "\<forall>c \<in> set s. \<not> count_char c" by (simp add: dropWhile_eq_Nil_conv)
  ultimately show ?thesis by simp
next
  case (Cons x xs)
  have "search_count s \<noteq> None" unfolding search_count_def Cons by simp
  moreover from Cons have "dropWhile (\<lambda>c. \<not> count_char c) s \<noteq> []" by simp
  hence "\<not> (\<forall>c \<in> set s. \<not> count_char c)" by (simp add: dropWhile_eq_Nil_conv)
  ultimately show ?thesis by auto
qed

lemma details_inner_defaults:
  "(\<forall>m. find (\<lambda>t. named ''meta'' t \<and> attr_is ''name'' ''twitter:data2'' t) soup = Some m \<longrightarrow>
      search_out_of (case get_attr (fst m) ''content'' of Some c \<Rightarrow> c | None \<Rightarrow> []) = None \<longrightarrow>
      vote_average (movie_details_of soup) = ''N/A'') \<and>
   (\<forall>l. find (\<lambda>t. named ''a'' t \<and> attr_search ''href'' ''rating-histogram'' t) soup = Some l \<longrightarrow>
      search_count (get_text_strip (fst l)) = None \<longrightarrow>
      vote_count (movie_details_of soup) = ''N/A'') \<and>
   (\<forall>l. find (\<lambda>t. named ''a'' t \<and> class_is ''has-icon'' t \<and> attr_search ''href'' ''/fans/'' t) soup
           = Some l \<longrightarrow>
      search_count (get_text_strip (fst l)) = None \<longrightarrow>
      popularity (movie_details_of soup) = ''0'')"
  by (simp add: movie_details_of_def Let_def del: split_paired_All)

lemma no_out_of_match:
  assumes "\<not> (\<exists>a g sp b. s = a @ g @ sp @ ''out of'' @ b \<and>
                g \<noteq> [] \<and> (\<forall>c \<in> set g. isdigit c \<or> c = CHR ''.'') \<and>
                sp \<noteq> [] \<and> (\<forall>c \<in> set sp. isspace c))"
  shows "search_out_of s = None"
proof (cases "search_out_of s")
  case None
  then show ?thesis .
next
  case (Some r)
  from search_out_of_Some [OF this] obtain a sp b where
    "s = a @ r @ sp @ ''out of'' @ b" "r \<noteq> []" "\<forall>c \<in> set r. isdigit c \<or> c = CHR ''.''"
    "sp \<noteq> []" "\<forall>c \<in> set sp. isspace c"
    unfolding num_char_def by (elim exE conjE)
  hence "\<exists>a g sp b. s = a @ g @ sp @ ''out of'' @ b \<and>
                g \<noteq> [] \<and> (\<forall>c \<in> set g. isdigit c \<or> c = CHR ''.'') \<and>
                sp \<noteq> [] \<and> (\<forall>c \<in> set sp. isspace c)"
    by (intro exI conjI)
  with assms show ?thesis by (rule notE)
qed

lemma no_count_match:
  assumes "\<forall>c \<in> set s. \<not> (isdigit c \<or> c = CHR '','')"
  shows "search_count s = None"
  using assms unfolding search_count_None count_char_def .

lemma digitless_no_match:
  assumes "\<forall>c \<in> set s. \<not> (isdigit c \<or> c = CHR ''.'')"
  shows "\<not> (\<exists>a g sp b. s = a @ g @ sp @ ''out of'' @ b \<and>
                g \<noteq> [] \<and> (\<forall>c \<in> set g. isdigit c \<or> c = CHR ''.'') \<and>
                sp \<noteq> [] \<and> (\<forall>c \<in> set sp. isspace c))"
proof
  assume "\<exists>a g sp b. s = a @ g @ sp @ ''out of'' @ b \<and>
                g \<noteq> [] \<and> (\<forall>c \<in> set g. isdigit c \<or> c = CHR ''.'') \<and>
                sp \<noteq> [] \<and> (\<forall>c \<in> set sp. isspace c)"
  then obtain a g sp b where s: "s = a @ g @ sp @ ''out of'' @ b" and g: "g \<noteq> []"
    and num: "\<forall>c \<in> set g. isdigit c \<or> c = CHR ''.''"
    by (elim exE conjE)
  from g have "hd g \<in> set g" by simp
  with num have "isdigit (hd g) \<or> hd g = CHR ''.''" by (rule bspec)
  moreover from \<open>hd g \<in> set g\<close> have "hd g \<in> set s" unfolding s by simp
  with assms have "\<not> (isdigit (hd g) \<or> hd g = CHR ''.'')" by (rule bspec)
  ultimately show False by (rule notE [rotated])
qed

lemma get_movie_details_cases:
  "get_movie_details ev url w =
     (case http_get ev w url of
        Response status soup \<Rightarrow>
          if raise_for_status status then (Inr None, w @ [GET url])
          else (Inr (Some (movie_details_of (soup, []))), w @ [GET url])
      | RequestException msg \<Rightarrow> (Inr None, w @ [GET url])
      | Raises KeyboardInterrupt \<Rightarrow> (Inl KeyboardInterrupt, w @ [GET url])
      | Raises (Exception msg) \<Rightarrow> (Inr None, w @ [GET url]))"
  by (simp add: get_movie_details_def get_page_def split: reply.splits exn.splits)





















lemma header_row:
  "csv_row [''movie_id'', ''username'', ''movie_name'', ''year'', ''genres'', ''rating'',
            ''popularity'', ''vote_average'', ''vote_count''] =
   ''movie_id,username,movie_name,year,genres,rating,popularity,vote_average,vote_count'' @
   [CHR 0x0D, CHR 0x0A]"
  by (simp add: csv_row_def csv_field_def)

lemma movie_row:
  "dict_to_list [''movie_id'', ''username'', ''movie_name'', ''year'', ''genres'', ''rating'',
                 ''popularity'', ''vote_average'', ''vote_count''] (movie_dict m) =
   [movie_id m, m_username m, m_movie_name m, m_year m, m_genres m, rating m, m_popularity m,
    m_vote_average m, m_vote_count m]"
  by (simp add: dict_to_list_def movie_dict_def)

section \<open>Sample runs\<close>

text \<open>The definitions that evaluation on a concrete document unfolds.\<close>

lemmas str_defs = isspace_def isdigit_def strip_where_def strip_def strip_char_def split_def
  tokens_def startswith_def replace_char_def remove_char_def int_isspace_def digits_value_def
  py_int_def str_half_def

lemmas soup_defs = get_class_def text_of_def get_text_strip_def find_all_def find_def
  find_parent_def list_attr_matches_def class_is_def class_search_def attr_search_def
  attr_is_def has_attr_def num_char_def count_char_def search_count_def

lemma films_items:
  "find_all (\<lambda>t. named ''div'' t \<and> class_is ''react-component'' t \<and>
                   has_attr ''data-target-link'' t) (films_page, []) =
   [(heat_item, [rated_li, films_page])]"
  by (simp add: films_page_def rated_li_def heat_item_def str_defs soup_defs)

lemma watchlist_items:
  "find_all (\<lambda>t. named ''div'' t \<and> class_is ''react-component'' t \<and>
                   has_attr ''data-target-link'' t) (watchlist_page, []) =
   [(heat_item, [Tag ''li'' [(''class'', ''griditem'')] [heat_item], watchlist_page]),
    (ronin_item, [Tag ''li'' [(''class'', ''griditem'')] [ronin_item], watchlist_page])]"
  by (simp add: watchlist_page_def ronin_item_def heat_item_def str_defs soup_defs)

lemma no_pagination:
  "find (\<lambda>t. named ''div'' t \<and> class_is ''pagination'' t) (films_page, []) = None"
  "find (\<lambda>t. named ''div'' t \<and> class_is ''pagination'' t) (watchlist_page, []) = None"
  by (simp_all add: films_page_def watchlist_page_def rated_li_def ronin_item_def heat_item_def
        str_defs soup_defs)

lemma get_page_200:
  "http_get ev w url = Response 200 page \<Longrightarrow>
   get_page ev url w = (Inr (Some (page, [])), w @ [GET url])"
  by (simp add: get_page_def raise_for_status_def)

lemma title_details:
  "http_get ev w url = Response 200 title_page \<Longrightarrow>
   get_movie_details ev url w =
     (Inr (Some \<lparr>movie_name = ''Heat'', year = ''N/A'', genres = ''N/A'', vote_average = ''N/A'',
                   vote_count = ''N/A'', popularity = ''0''\<rparr>),
      w @ [GET url])"
  by (simp add: get_movie_details_def movie_details_of_def get_page_200 title_page_def
        str_defs soup_defs)

lemma details_timeout:
  "http_get ev w url = RequestException msg \<Longrightarrow>
   get_movie_details ev url w = (Inr None, w @ [GET url])"
  by (simp add: get_movie_details_def get_page_def)

lemma heat_rating:
  "extract_user_rating ev (heat_item, [rated_li, films_page]) = ''3.5''"
  by (simp add: extract_user_rating_def rating_of_class_def rated_li_def heat_item_def
        films_page_def str_defs soup_defs decimal.simps)

lemma watchlist_unrated:
  "extract_user_rating ev
     (heat_item, [Tag ''li'' [(''class'', ''griditem'')] [heat_item], watchlist_page]) =
   ''Not Rated''"
  "extract_user_rating ev
     (ronin_item, [Tag ''li'' [(''class'', ''griditem'')] [ronin_item], watchlist_page]) =
   ''Not Rated''"
  by (simp_all add: extract_user_rating_def heat_item_def ronin_item_def str_defs soup_defs)

lemma item_links:
  "get_attr heat_item ''data-target-link'' = Some ''/film/heat/''"
  "get_attr ronin_item ''data-target-link'' = Some ''/film/ronin/''"
  by (simp_all add: heat_item_def ronin_item_def)

lemma slugs:
  "last (split (CHR ''/'') (strip_char (CHR ''/'') ''/film/heat/'')) = ''heat''"
  "last (split (CHR ''/'') (strip_char (CHR ''/'') ''/film/ronin/'')) = ''ronin''"
  by (simp_all add: str_defs)

lemma site_env:
  "http_get site w url =
     (if contains ''/film/'' url then Response 200 title_page
      else if contains ''/watchlist/'' url then Response 200 watchlist_page
      else Response 200 films_page)"
  "sleep site ms w = (None, w @ [Sleep ms])"
  by (simp_all add: site_def sleep_def)

lemma broken_env:
  "http_get broken w url =
     (if contains ''/films/'' url then Raises (Exception ''ParserRejectedMarkup'')
      else http_get site w url)"
  "sleep broken ms w = (None, w @ [Sleep ms])"
  by (simp_all add: broken_def site_def sleep_def)

lemma impatient_env:
  "http_get impatient w url = http_get site w url"
  "sleep impatient ms w = (Some KeyboardInterrupt, w @ [Sleep ms])"
  by (simp_all add: impatient_def site_def sleep_def)

lemma flaky_env:
  "http_get flaky w url =
     (if GET url \<in> set w then Response 200 title_page
      else if url = ''https://letterboxd.com/film/gone/'' then Response 404 title_page
      else RequestException ''timed out'')"
  "sleep flaky ms w = (None, w @ [Sleep ms])"
  by (simp_all add: flaky_def sleep_def)

lemmas run_defs = scrape_section_def get_num_pages_def scrape_page_def scrape_item_def init_def
  get_page_200 no_pagination films_items watchlist_items item_links slugs title_details
  heat_rating watchlist_unrated heat_def ronin_def decimal.simps Let_def

lemma run_films:
  "scrape_section site ''films'' None (init ''bob'') [] =
     (Inr [heat], (init ''bob'')\<lparr>movies_data := [heat]\<rparr>,
      [GET ''https://letterboxd.com/bob/films/'', GET ''https://letterboxd.com/bob/films/page/1/'',
       GET ''https://letterboxd.com/film/heat/'', Sleep 1500])"
  by (simp add: run_defs site_env)

lemma run_watchlist:
  "scrape_section site ''watchlist'' None ((init ''bob'')\<lparr>movies_data := [heat]\<rparr>) w =
     (Inr [heat, ronin], (init ''bob'')\<lparr>movies_data := [heat, ronin]\<rparr>,
      w @ [GET ''https://letterboxd.com/bob/watchlist/'',
           GET ''https://letterboxd.com/bob/watchlist/page/1/'',
           GET ''https://letterboxd.com/film/ronin/'', Sleep 1500])"
  by (simp add: run_defs site_env)

lemma run_both:
  "scrape_all_sections site (Some [''films'', ''watchlist'']) None (init ''bob'') [] =
     ([heat, ronin], (init ''bob'')\<lparr>movies_data := [heat, ronin]\<rparr>,
      [GET ''https://letterboxd.com/bob/films/'', GET ''https://letterboxd.com/bob/films/page/1/'',
       GET ''https://letterboxd.com/film/heat/'', Sleep 1500,
       GET ''https://letterboxd.com/bob/watchlist/'',
       GET ''https://letterboxd.com/bob/watchlist/page/1/'',
       GET ''https://letterboxd.com/film/ronin/'', Sleep 1500])"
  by (simp add: scrape_all_sections_def run_films run_watchlist)

lemma run_broken_films:
  "scrape_section broken ''films'' None (init ''bob'') [] =
     (Inl (Exception ''ParserRejectedMarkup''), init ''bob'',
      [GET ''https://letterboxd.com/bob/films/''])"
  by (simp add: scrape_section_def get_num_pages_def get_page_def init_def broken_env)

lemma run_broken_watchlist:
  "scrape_section broken ''watchlist'' None (init ''bob'') w =
     (Inr [heat\<lparr>rating := ''Not Rated''\<rparr>, ronin],
      (init ''bob'')\<lparr>movies_data := [heat\<lparr>rating := ''Not Rated''\<rparr>, ronin]\<rparr>,
      w @ [GET ''https://letterboxd.com/bob/watchlist/'',
           GET ''https://letterboxd.com/bob/watchlist/page/1/'',
           GET ''https://letterboxd.com/film/heat/'', Sleep 1500,
           GET ''https://letterboxd.com/film/ronin/'', Sleep 1500])"
  by (simp add: run_defs broken_env site_env)

lemma run_impatient_films:
  "scrape_section impatient ''films'' None (init ''bob'') [] =
     (Inl KeyboardInterrupt, (init ''bob'')\<lparr>movies_data := [heat]\<rparr>,
      [GET ''https://letterboxd.com/bob/films/'', GET ''https://letterboxd.com/bob/films/page/1/'',
       GET ''https://letterboxd.com/film/heat/'', Sleep 1500])"
  by (simp add: run_defs impatient_env site_env)

lemma run_flaky_twice:
  "scrape_items flaky [(heat_item, [rated_li, films_page]), (heat_item, [rated_li, films_page])]
     (init ''bob'') [] =
     (None, (init ''bob'')\<lparr>movies_data := [heat]\<rparr>,
      [GET ''https://letterboxd.com/film/heat/'', Sleep 1500,
       GET ''https://letterboxd.com/film/heat/'', Sleep 1500])"
  by (simp add: run_defs flaky_env details_timeout)

text \<open>
  A section page with a pagination control of two page-number links, the last one labelled
  \<open>s\<close>: the count is the integer \<open>s\<close> denotes, or 1 when \<open>s\<close> denotes none.
\<close>

lemma serving_env:
  "http_get (serving page) w url = Response 200 page"
  "int_max_str_digits (serving page) = 4300"
  by (simp_all add: serving_def site_def)

lemma paginated_links:
  "find (\<lambda>t. named ''div'' t \<and> class_is ''pagination'' t) (paginated s, []) =
     Some (Tag ''div'' [(''class'', ''pagination'')]
        [Tag ''ul'' []
           [Tag ''li'' [(''class'', ''paginate-page'')] [Tag ''a'' [] [NavigableString ''1'']],
            Tag ''li'' [(''class'', ''paginate-page'')]
              [Tag ''a'' [] [NavigableString s]]]], [paginated s])"
  by (simp add: paginated_def str_defs soup_defs)

lemma paginated_page_links:
  "last (find_all (\<lambda>t. named ''li'' t \<and> class_is ''paginate-page'' t)
     (Tag ''div'' [(''class'', ''pagination'')]
        [Tag ''ul'' []
           [Tag ''li'' [(''class'', ''paginate-page'')] [Tag ''a'' [] [NavigableString ''1'']],
            Tag ''li'' [(''class'', ''paginate-page'')]
              [Tag ''a'' [] [NavigableString s]]]], [paginated s])) =
   (Tag ''li'' [(''class'', ''paginate-page'')] [Tag ''a'' [] [NavigableString s]],
    [Tag ''ul'' []
           [Tag ''li'' [(''class'', ''paginate-page'')] [Tag ''a'' [] [NavigableString ''1'']],
            Tag ''li'' [(''class'', ''paginate-page'')]
              [Tag ''a'' [] [NavigableString s]]],
     Tag ''div'' [(''class'', ''pagination'')]
        [Tag ''ul'' []
           [Tag ''li'' [(''class'', ''paginate-page'')] [Tag ''a'' [] [NavigableString ''1'']],
            Tag ''li'' [(''class'', ''paginate-page'')]
              [Tag ''a'' [] [NavigableString s]]]],
     paginated s])"
  "find_all (\<lambda>t. named ''li'' t \<and> class_is ''paginate-page'' t)
     (Tag ''div'' [(''class'', ''pagination'')]
        [Tag ''ul'' []
           [Tag ''li'' [(''class'', ''paginate-page'')] [Tag ''a'' [] [NavigableString ''1'']],
            Tag ''li'' [(''class'', ''paginate-page'')]
              [Tag ''a'' [] [NavigableString s]]]], [paginated s]) \<noteq> []"
  by (simp_all add: str_defs soup_defs)

lemma paginated_pages:
  "get_num_pages (serving (paginated s)) (init ''bob'') ''films'' [] =
     (Inr (case py_int 4300 (strip s) of Some n \<Rightarrow> n | None \<Rightarrow> 1),
      [GET ''https://letterboxd.com/bob/films/''])"
  by (simp add: get_num_pages_def get_page_200 serving_env paginated_links
        paginated_page_links init_def text_of_def Let_def split: option.splits)

lemma sparse_elements:
  "find (\<lambda>t. named ''meta'' t \<and> attr_is ''name'' ''twitter:data2'' t) (sparse_page, []) = Some (Tag ''meta'' [(''name'', ''twitter:data2''), (''content'', ''not out of five yet'')] [], [sparse_page])"
  "find (\<lambda>t. named ''a'' t \<and> attr_search ''href'' ''rating-histogram'' t) (sparse_page, []) = Some (Tag ''a'' [(''href'', ''/film/heat/rating-histogram/'')] [NavigableString ''No ratings''], [sparse_page])"
  "find (\<lambda>t. named ''a'' t \<and> class_is ''has-icon'' t \<and> attr_search ''href'' ''/fans/'' t) (sparse_page, []) = Some (Tag ''a'' [(''class'', ''has-icon''), (''href'', ''/film/heat/fans/'')] [NavigableString ''Fans''], [sparse_page])"
  by (simp_all add: sparse_page_def str_defs soup_defs)



section \<open>Deduplication\<close>

text \<open>
  Claim C1. The identifiers of the accumulated records stay pairwise distinct: from a
  scraper whose records have distinct identifiers, as the new scraper of \<open>init\<close> has, both
  \<open>scrape_all_sections\<close> and \<open>scrape_section\<close> leave records with distinct identifiers.
  The records present before are a prefix of the records afterwards, so none is removed,
  merged or overwritten, and the record kept for an identifier is the one appended first.
  An item whose slug is the identifier of a record changes nothing: neither the scraper
  nor the world.
\<close>

theorem no_duplicate_records:
  assumes "distinct (map movie_id (movies_data self))"
  shows "distinct (map movie_id (fst (scrape_all_sections ev sections mp self w))) \<and>
         distinct (map movie_id (movies_data (fst (snd (scrape_section ev sec mp self w))))) \<and>
         prefix (movies_data self) (fst (scrape_all_sections ev sections mp self w)) \<and>
         prefix (movies_data self) (movies_data (fst (snd (scrape_section ev sec mp self w)))) \<and>
         (\<forall>m m'. m \<in> set (movies_data self) \<and>
                  m' \<in> set (fst (scrape_all_sections ev sections mp self w)) \<and>
                  movie_id m' = movie_id m \<longrightarrow> m' = m) \<and>
         (\<forall>item l. get_attr (fst item) ''data-target-link'' = Some l \<and>
              last (split (CHR ''/'') (strip_char (CHR ''/'') l)) \<in>
                movie_id ` set (movies_data self) \<longrightarrow>
              scrape_item ev self item w = (None, self, w))"
proof -
  obtain r s1 w1 where all: "scrape_all_sections ev sections mp self w = (r, s1, w1)"
    by (cases "scrape_all_sections ev sections mp self w") auto
  then have g1: "grows self s1" and r: "r = movies_data s1"
    using scrape_all_sections_grows by blast+
  obtain r2 s2 w2 where one: "scrape_section ev sec mp self w = (r2, s2, w2)"
    by (cases "scrape_section ev sec mp self w") auto
  then have g2: "grows self s2" by (rule scrape_section_grows)
  have c1: "distinct (map movie_id (fst (scrape_all_sections ev sections mp self w)))"
    using g1 assms by (simp add: all r grows_def)
  have c2: "distinct (map movie_id (movies_data (fst (snd (scrape_section ev sec mp self w)))))"
    using g2 assms by (simp add: one grows_def)
  have c3: "prefix (movies_data self) (fst (scrape_all_sections ev sections mp self w))"
    using g1 by (simp add: all r grows_def)
  have c4: "prefix (movies_data self) (movies_data (fst (snd (scrape_section ev sec mp self w))))"
    using g2 by (simp add: one grows_def)
  have c5: "\<forall>m m'. m \<in> set (movies_data self) \<and>
                  m' \<in> set (fst (scrape_all_sections ev sections mp self w)) \<and>
                  movie_id m' = movie_id m \<longrightarrow> m' = m"
    using grows_same_id [OF g1 assms] by (simp add: all r)
  have c6: "\<forall>item l. get_attr (fst item) ''data-target-link'' = Some l \<and>
              last (split (CHR ''/'') (strip_char (CHR ''/'') l)) \<in>
                movie_id ` set (movies_data self) \<longrightarrow>
              scrape_item ev self item w = (None, self, w)"
    using known_slug_skipped by blast
  from c1 c2 c3 c4 c5 c6 show ?thesis by blast
qed

theorem no_duplicate_records_witness:
  "distinct (map movie_id (movies_data (init ''bob''))) \<and>
   fst (scrape_all_sections site (Some [''films'', ''watchlist'']) None (init ''bob'') []) =
     [heat, ronin] \<and>
   distinct (map movie_id [heat, ronin]) \<and>
   distinct (map movie_id (movies_data ((init ''bob'')\<lparr>movies_data := [heat]\<rparr>))) \<and>
   scrape_item site ((init ''bob'')\<lparr>movies_data := [heat]\<rparr>)
     (heat_item, [Tag ''li'' [(''class'', ''griditem'')] [heat_item], watchlist_page]) [] =
     (None, (init ''bob'')\<lparr>movies_data := [heat]\<rparr>, [])"
proof -
  let ?s1 = "(init ''bob'')\<lparr>movies_data := [heat]\<rparr>"
  let ?it = "(heat_item, [Tag ''li'' [(''class'', ''griditem'')] [heat_item], watchlist_page])"
  have a: "distinct (map movie_id (movies_data (init ''bob'')))"
    by (simp add: init_def)
  have b: "distinct (map movie_id (movies_data ?s1))"
    by simp
  have run: "fst (scrape_all_sections site (Some [''films'', ''watchlist'']) None (init ''bob'') []) =
               [heat, ronin]"
    by (simp add: run_both)
  have "distinct (map movie_id
          (fst (scrape_all_sections site (Some [''films'', ''watchlist'']) None (init ''bob'') [])))"
    using no_duplicate_records [OF a, of site "Some [''films'', ''watchlist'']" None "[]" "''films''"]
    by (rule conjunct1)
  then have c: "distinct (map movie_id [heat, ronin])"
    by (simp only: run)
  have link: "get_attr (fst ?it) ''data-target-link'' = Some ''/film/heat/''"
    by (simp add: item_links)
  have known: "last (split (CHR ''/'') (strip_char (CHR ''/'') ''/film/heat/'')) \<in>
                 movie_id ` set (movies_data ?s1)"
    by (simp add: slugs heat_def)
  have "\<forall>item l. get_attr (fst item) ''data-target-link'' = Some l \<and>
              last (split (CHR ''/'') (strip_char (CHR ''/'') l)) \<in> movie_id ` set (movies_data ?s1) \<longrightarrow>
              scrape_item site ?s1 item [] = (None, ?s1, [])"
    using no_duplicate_records [OF b, of site None None "[]" "''films''"] by blast
  with link known have d: "scrape_item site ?s1 ?it [] = (None, ?s1, [])"
    by blast
  from a run c b d show ?thesis by blast
qed

section \<open>The rating of the user\<close>



section \<open>The number of pages of a section\<close>

text \<open>
  Claim C3. \<open>get_num_pages\<close> fetches the first page of the section once and raises nothing
  when the fetch raises nothing but a \<^verbatim>\<open>RequestException\<close>. It returns 1 when the fetch gives
  no document, when the document has no \<^verbatim>\<open>div\<close> of class \<^verbatim>\<open>pagination\<close>, when the first such
  \<^verbatim>\<open>div\<close> holds no \<^verbatim>\<open>li\<close> of class \<^verbatim>\<open>paginate-page\<close>, and when the stripped text of the last
  such \<^verbatim>\<open>li\<close> is no integer literal for \<^verbatim>\<open>int\<close>. Otherwise it returns the integer that text
  denotes, whatever its sign: the result is below 1 only when the last page-number link
  itself denotes an integer below 1.
\<close>

theorem page_count_resolution:
  assumes url: "url = (if section = ''likes/films''
                       then base_url self @ ''/'' @ username self @ ''/likes/films/''
                       else base_url self @ ''/'' @ username self @ ''/'' @ section @ ''/'')"
    and fetch: "get_page ev url w = (Inr r, w')"
  shows "\<exists>n. get_num_pages ev self section w = (Inr n, w') \<and>
           (r = None \<longrightarrow> n = 1) \<and>
           (\<forall>soup. r = Some soup \<longrightarrow>
              (find (\<lambda>t. named ''div'' t \<and> class_is ''pagination'' t) soup = None \<longrightarrow> n = 1) \<and>
              (\<forall>pagination. find (\<lambda>t. named ''div'' t \<and> class_is ''pagination'' t) soup = Some pagination \<longrightarrow>
                 (find_all (\<lambda>t. named ''li'' t \<and> class_is ''paginate-page'' t) pagination = [] \<longrightarrow> n = 1) \<and>
                 (find_all (\<lambda>t. named ''li'' t \<and> class_is ''paginate-page'' t) pagination \<noteq> [] \<longrightarrow>
                    (\<forall>v. py_int (int_max_str_digits ev)
                            (strip (text_of (fst (last (find_all (\<lambda>t. named ''li'' t \<and> class_is ''paginate-page'' t) pagination))))) = Some v \<longrightarrow>
                         n = v) \<and>
                    (py_int (int_max_str_digits ev)
                       (strip (text_of (fst (last (find_all (\<lambda>t. named ''li'' t \<and> class_is ''paginate-page'' t) pagination))))) = None \<longrightarrow>
                       n = 1)))) \<and>
           (n < 1 \<longrightarrow>
              (\<exists>soup pagination. r = Some soup \<and> find (\<lambda>t. named ''div'' t \<and> class_is ''pagination'' t) soup = Some pagination \<and>
                  find_all (\<lambda>t. named ''li'' t \<and> class_is ''paginate-page'' t) pagination \<noteq> [] \<and>
                  py_int (int_max_str_digits ev)
                    (strip (text_of (fst (last (find_all (\<lambda>t. named ''li'' t \<and> class_is ''paginate-page'' t) pagination))))) = Some n))"
proof (cases r)
  case None
  with fetch have "get_num_pages ev self section w = (Inr 1, w')"
    unfolding get_num_pages_def url [symmetric] Let_def by simp
  with None show ?thesis by (simp del: split_paired_All split_paired_Ex)
next
  case (Some soup)
  note r = Some
  show ?thesis
  proof (cases "find (\<lambda>t. named ''div'' t \<and> class_is ''pagination'' t) soup")
    case None
    with fetch r have "get_num_pages ev self section w = (Inr 1, w')"
      unfolding get_num_pages_def url [symmetric] Let_def by simp
    with None r show ?thesis by (simp del: split_paired_All split_paired_Ex)
  next
    case (Some pagination)
    note pag = Some
    show ?thesis
    proof (cases "find_all (\<lambda>t. named ''li'' t \<and> class_is ''paginate-page'' t) pagination = []")
      case True
      with fetch r pag have "get_num_pages ev self section w = (Inr 1, w')"
        unfolding get_num_pages_def url [symmetric] Let_def by simp
      with True r pag show ?thesis by (simp del: split_paired_All split_paired_Ex)
    next
      case False
      note links = False
      show ?thesis
      proof (cases "py_int (int_max_str_digits ev)
                      (strip (text_of (fst (last (find_all (\<lambda>t. named ''li'' t \<and> class_is ''paginate-page'' t) pagination)))))")
        case None
        with fetch r pag links have "get_num_pages ev self section w = (Inr 1, w')"
          unfolding get_num_pages_def url [symmetric] Let_def by simp
        with None r pag links show ?thesis by (simp del: split_paired_All split_paired_Ex)
      next
        case (Some v)
        with fetch r pag links have "get_num_pages ev self section w = (Inr v, w')"
          unfolding get_num_pages_def url [symmetric] Let_def by simp
        with Some r pag links show ?thesis by (simp del: split_paired_All split_paired_Ex)
      qed
    qed
  qed
qed

theorem page_count_resolution_witness:
  "get_page (serving (paginated ''3'')) ''https://letterboxd.com/bob/films/'' [] =
     (Inr (Some (paginated ''3'', [])), [GET ''https://letterboxd.com/bob/films/'']) \<and>
   get_num_pages (serving (paginated ''3'')) (init ''bob'') ''films'' [] =
     (Inr 3, [GET ''https://letterboxd.com/bob/films/'']) \<and>
   get_page flaky ''https://letterboxd.com/bob/films/'' [] =
     (Inr None, [GET ''https://letterboxd.com/bob/films/'']) \<and>
   get_num_pages flaky (init ''bob'') ''films'' [] =
     (Inr 1, [GET ''https://letterboxd.com/bob/films/''])"
proof -
  have url: "''https://letterboxd.com/bob/films/'' =
      (if ''films'' = ''likes/films''
       then base_url (init ''bob'') @ ''/'' @ username (init ''bob'') @ ''/likes/films/''
       else base_url (init ''bob'') @ ''/'' @ username (init ''bob'') @ ''/'' @ ''films'' @ ''/'')"
    by (simp add: init_def)
  have served: "get_page (serving (paginated ''3'')) ''https://letterboxd.com/bob/films/'' [] =
     (Inr (Some (paginated ''3'', [])), [GET ''https://letterboxd.com/bob/films/''])"
    by (simp add: get_page_200 serving_env)
  have timeout: "get_page flaky ''https://letterboxd.com/bob/films/'' [] =
     (Inr None, [GET ''https://letterboxd.com/bob/films/''])"
    by (simp add: get_page_def flaky_env)
  have parsed: "py_int 4300 (strip ''3'') = Some 3"
    by (simp add: str_defs)
  have three: "get_num_pages (serving (paginated ''3'')) (init ''bob'') ''films'' [] =
     (Inr 3, [GET ''https://letterboxd.com/bob/films/''])"
    using page_count_resolution [OF url served] parsed
    by (simp add: paginated_links paginated_page_links serving_env text_of_def
          del: split_paired_All split_paired_Ex)
  have one: "get_num_pages flaky (init ''bob'') ''films'' [] =
     (Inr 1, [GET ''https://letterboxd.com/bob/films/''])"
    using page_count_resolution [OF url timeout] by simp
  from served three timeout one show ?thesis by (intro conjI)
qed

text \<open>
  The result is not always at least 1: \<^verbatim>\<open>int\<close> accepts \<^verbatim>\<open>'0'\<close> (and a signed literal such as
  \<^verbatim>\<open>'-2'\<close>), and the value is returned as it is. On a page whose last page-number link
  reads \<^verbatim>\<open>0\<close> the count is 0, and \<open>scrape_section\<close> then visits no page at all.
\<close>

theorem page_count_below_one:
  "fst (get_num_pages (serving (paginated ''0'')) (init ''bob'') ''films'' []) = Inr 0 \<and>
   (0::int) < 1"
  by (simp add: paginated_pages str_defs)
section \<open>The details of a film\<close>

text \<open>
  Claim C4. When the page of the film is fetched (a response whose status is not from 400
  to 599), \<open>get_movie_details\<close> raises nothing and returns a dictionary, whatever the page
  holds, and each field has its default when no element of the page is the one the field
  is read from: \<^verbatim>\<open>'N/A'\<close> for the title, the year, the genres, the average and the vote
  count, and \<^verbatim>\<open>'0'\<close> for the popularity, each independently of the other fields. The
  three fields read with a pattern also have their default when the element is there and
  the pattern finds nothing in it: the average is \<^verbatim>\<open>'N/A'\<close> when the \<^verbatim>\<open>content\<close> of the
  \<^verbatim>\<open>meta\<close> element has no run of digits and dots followed by whitespace and \<^verbatim>\<open>out of\<close>, the
  vote count is \<^verbatim>\<open>'N/A'\<close> and the popularity is \<^verbatim>\<open>'0'\<close> when the text of the link has no
  digit and no comma. It returns \<^verbatim>\<open>None\<close> exactly when the fetch fails (a
  \<^verbatim>\<open>RequestException\<close> or a status from 400 to 599) or when fetching and parsing raise
  another \<^verbatim>\<open>Exception\<close>.
\<close>

theorem details_default_on_absence:
  "(http_get ev w url = Response status soup \<and> \<not> (400 \<le> status \<and> status < 600) \<longrightarrow>
      (\<exists>d. get_movie_details ev url w = (Inr (Some d), w @ [GET url]) \<and>
           ((\<forall>t \<in> set (descendants [] soup).
               \<not> (named ''h1'' (fst t) \<and> class_is ''headline-1'' (fst t))) \<longrightarrow>
              movie_name d = ''N/A'') \<and>
           ((\<forall>t \<in> set (descendants [] soup).
               \<not> (named ''small'' (fst t) \<and> class_is ''number'' (fst t))) \<longrightarrow>
              year d = ''N/A'') \<and>
           ((\<forall>t \<in> set (descendants [] soup).
               \<not> (named ''a'' (fst t) \<and> attr_search ''href'' ''/films/genre/'' (fst t))) \<longrightarrow>
              genres d = ''N/A'') \<and>
           ((\<forall>t \<in> set (descendants [] soup).
               \<not> (named ''meta'' (fst t) \<and> attr_is ''name'' ''twitter:data2'' (fst t))) \<longrightarrow>
              vote_average d = ''N/A'') \<and>
           ((\<forall>t \<in> set (descendants [] soup).
               \<not> (named ''a'' (fst t) \<and> attr_search ''href'' ''rating-histogram'' (fst t))) \<longrightarrow>
              vote_count d = ''N/A'') \<and>
           ((\<forall>t \<in> set (descendants [] soup).
               \<not> (named ''a'' (fst t) \<and> class_is ''has-icon'' (fst t) \<and>
                  attr_search ''href'' ''/fans/'' (fst t))) \<longrightarrow>
              popularity d = ''0'') \<and>
           (\<forall>m. find (\<lambda>t. named ''meta'' t \<and> attr_is ''name'' ''twitter:data2'' t) (soup, []) = Some m \<longrightarrow>
              \<not> (\<exists>a g sp b. (case get_attr (fst m) ''content'' of Some c \<Rightarrow> c | None \<Rightarrow> []) =
                                 a @ g @ sp @ ''out of'' @ b \<and>
                              g \<noteq> [] \<and> (\<forall>c \<in> set g. isdigit c \<or> c = CHR ''.'') \<and>
                              sp \<noteq> [] \<and> (\<forall>c \<in> set sp. isspace c)) \<longrightarrow>
              vote_average d = ''N/A'') \<and>
           (\<forall>l. find (\<lambda>t. named ''a'' t \<and> attr_search ''href'' ''rating-histogram'' t) (soup, []) = Some l \<longrightarrow>
              (\<forall>c \<in> set (get_text_strip (fst l)). \<not> (isdigit c \<or> c = CHR '','')) \<longrightarrow>
              vote_count d = ''N/A'') \<and>
           (\<forall>l. find (\<lambda>t. named ''a'' t \<and> class_is ''has-icon'' t \<and> attr_search ''href'' ''/fans/'' t)
                    (soup, []) = Some l \<longrightarrow>
              (\<forall>c \<in> set (get_text_strip (fst l)). \<not> (isdigit c \<or> c = CHR '','')) \<longrightarrow>
              popularity d = ''0''))) \<and>
   (fst (get_movie_details ev url w) = Inr None \<longleftrightarrow>
      (\<exists>msg. http_get ev w url = RequestException msg) \<or>
      (\<exists>status soup. http_get ev w url = Response status soup \<and> 400 \<le> status \<and> status < 600) \<or>
      (\<exists>msg. http_get ev w url = Raises (Exception msg)))"
proof (intro conjI impI)
  assume a: "http_get ev w url = Response status soup \<and> \<not> (400 \<le> status \<and> status < 600)"
  then have run: "get_movie_details ev url w =
                    (Inr (Some (movie_details_of (soup, []))), w @ [GET url])"
    by (simp add: get_movie_details_cases raise_for_status_def)
  note D = details_defaults [of "(soup, [])", unfolded find_None_iff find_all_Nil_iff fst_conv snd_conv]
  note I = details_inner_defaults [of "(soup, [])"]
  have I1: "(\<forall>m. find (\<lambda>t. named ''meta'' t \<and> attr_is ''name'' ''twitter:data2'' t) (soup, []) = Some m \<longrightarrow>
   \<not> (\<exists>a g sp b. (case get_attr (fst m) ''content'' of Some c \<Rightarrow> c | None \<Rightarrow> []) =
                      a @ g @ sp @ ''out of'' @ b \<and>
                   g \<noteq> [] \<and> (\<forall>c \<in> set g. isdigit c \<or> c = CHR ''.'') \<and>
                   sp \<noteq> [] \<and> (\<forall>c \<in> set sp. isspace c)) \<longrightarrow>
   vote_average (movie_details_of (soup, [])) = ''N/A'')"
    using I [THEN conjunct1] no_out_of_match by (auto simp del: split_paired_All)
  have I2: "(\<forall>l. find (\<lambda>t. named ''a'' t \<and> attr_search ''href'' ''rating-histogram'' t) (soup, []) = Some l \<longrightarrow>
   (\<forall>c \<in> set (get_text_strip (fst l)). \<not> (isdigit c \<or> c = CHR '','')) \<longrightarrow>
   vote_count (movie_details_of (soup, [])) = ''N/A'')"
    using I [THEN conjunct2, THEN conjunct1] no_count_match by (auto simp del: split_paired_All)
  have I3: "(\<forall>l. find (\<lambda>t. named ''a'' t \<and> class_is ''has-icon'' t \<and> attr_search ''href'' ''/fans/'' t)
         (soup, []) = Some l \<longrightarrow>
   (\<forall>c \<in> set (get_text_strip (fst l)). \<not> (isdigit c \<or> c = CHR '','')) \<longrightarrow>
   popularity (movie_details_of (soup, [])) = ''0'')"
    using I [THEN conjunct2, THEN conjunct2] no_count_match by (auto simp del: split_paired_All)
  note D1 = D [THEN conjunct1]
  note D2 = D [THEN conjunct2, THEN conjunct1]
  note D3 = D [THEN conjunct2, THEN conjunct2, THEN conjunct1]
  note D4 = D [THEN conjunct2, THEN conjunct2, THEN conjunct2, THEN conjunct1]
  note D5 = D [THEN conjunct2, THEN conjunct2, THEN conjunct2, THEN conjunct2, THEN conjunct1]
  note D6 = D [THEN conjunct2, THEN conjunct2, THEN conjunct2, THEN conjunct2, THEN conjunct2]
  have all: "    ((\<forall>t \<in> set (descendants [] soup).
        \<not> (named ''h1'' (fst t) \<and> class_is ''headline-1'' (fst t))) \<longrightarrow>
       movie_name (movie_details_of (soup, [])) = ''N/A'') \<and>
    ((\<forall>t \<in> set (descendants [] soup).
        \<not> (named ''small'' (fst t) \<and> class_is ''number'' (fst t))) \<longrightarrow>
       year (movie_details_of (soup, [])) = ''N/A'') \<and>
    ((\<forall>t \<in> set (descendants [] soup).
        \<not> (named ''a'' (fst t) \<and> attr_search ''href'' ''/films/genre/'' (fst t))) \<longrightarrow>
       genres (movie_details_of (soup, [])) = ''N/A'') \<and>
    ((\<forall>t \<in> set (descendants [] soup).
        \<not> (named ''meta'' (fst t) \<and> attr_is ''name'' ''twitter:data2'' (fst t))) \<longrightarrow>
       vote_average (movie_details_of (soup, [])) = ''N/A'') \<and>
    ((\<forall>t \<in> set (descendants [] soup).
        \<not> (named ''a'' (fst t) \<and> attr_search ''href'' ''rating-histogram'' (fst t))) \<longrightarrow>
       vote_count (movie_details_of (soup, [])) = ''N/A'') \<and>
    ((\<forall>t \<in> set (descendants [] soup).
        \<not> (named ''a'' (fst t) \<and> class_is ''has-icon'' (fst t) \<and>
           attr_search ''href'' ''/fans/'' (fst t))) \<longrightarrow>
       popularity (movie_details_of (soup, [])) = ''0'') \<and>
    (\<forall>m. find (\<lambda>t. named ''meta'' t \<and> attr_is ''name'' ''twitter:data2'' t) (soup, []) = Some m \<longrightarrow>
   \<not> (\<exists>a g sp b. (case get_attr (fst m) ''content'' of Some c \<Rightarrow> c | None \<Rightarrow> []) =
                      a @ g @ sp @ ''out of'' @ b \<and>
                   g \<noteq> [] \<and> (\<forall>c \<in> set g. isdigit c \<or> c = CHR ''.'') \<and>
                   sp \<noteq> [] \<and> (\<forall>c \<in> set sp. isspace c)) \<longrightarrow>
   vote_average (movie_details_of (soup, [])) = ''N/A'') \<and>
    (\<forall>l. find (\<lambda>t. named ''a'' t \<and> attr_search ''href'' ''rating-histogram'' t) (soup, []) = Some l \<longrightarrow>
   (\<forall>c \<in> set (get_text_strip (fst l)). \<not> (isdigit c \<or> c = CHR '','')) \<longrightarrow>
   vote_count (movie_details_of (soup, [])) = ''N/A'') \<and>
    (\<forall>l. find (\<lambda>t. named ''a'' t \<and> class_is ''has-icon'' t \<and> attr_search ''href'' ''/fans/'' t)
         (soup, []) = Some l \<longrightarrow>
   (\<forall>c \<in> set (get_text_strip (fst l)). \<not> (isdigit c \<or> c = CHR '','')) \<longrightarrow>
   popularity (movie_details_of (soup, [])) = ''0'')"
    by (intro conjI) (rule D1 D2 D3 D4 D5 D6 I1 I2 I3)+
  show "\<exists>d. get_movie_details ev url w = (Inr (Some d), w @ [GET url]) \<and>
        ((\<forall>t \<in> set (descendants [] soup).
            \<not> (named ''h1'' (fst t) \<and> class_is ''headline-1'' (fst t))) \<longrightarrow>
           movie_name d = ''N/A'') \<and>
        ((\<forall>t \<in> set (descendants [] soup).
            \<not> (named ''small'' (fst t) \<and> class_is ''number'' (fst t))) \<longrightarrow>
           year d = ''N/A'') \<and>
        ((\<forall>t \<in> set (descendants [] soup).
            \<not> (named ''a'' (fst t) \<and> attr_search ''href'' ''/films/genre/'' (fst t))) \<longrightarrow>
           genres d = ''N/A'') \<and>
        ((\<forall>t \<in> set (descendants [] soup).
            \<not> (named ''meta'' (fst t) \<and> attr_is ''name'' ''twitter:data2'' (fst t))) \<longrightarrow>
           vote_average d = ''N/A'') \<and>
        ((\<forall>t \<in> set (descendants [] soup).
            \<not> (named ''a'' (fst t) \<and> attr_search ''href'' ''rating-histogram'' (fst t))) \<longrightarrow>
           vote_count d = ''N/A'') \<and>
        ((\<forall>t \<in> set (descendants [] soup).
            \<not> (named ''a'' (fst t) \<and> class_is ''has-icon'' (fst t) \<and>
               attr_search ''href'' ''/fans/'' (fst t))) \<longrightarrow>
           popularity d = ''0'') \<and>
        (\<forall>m. find (\<lambda>t. named ''meta'' t \<and> attr_is ''name'' ''twitter:data2'' t) (soup, []) = Some m \<longrightarrow>
           \<not> (\<exists>a g sp b. (case get_attr (fst m) ''content'' of Some c \<Rightarrow> c | None \<Rightarrow> []) =
                              a @ g @ sp @ ''out of'' @ b \<and>
                           g \<noteq> [] \<and> (\<forall>c \<in> set g. isdigit c \<or> c = CHR ''.'') \<and>
                           sp \<noteq> [] \<and> (\<forall>c \<in> set sp. isspace c)) \<longrightarrow>
           vote_average d = ''N/A'') \<and>
        (\<forall>l. find (\<lambda>t. named ''a'' t \<and> attr_search ''href'' ''rating-histogram'' t) (soup, []) = Some l \<longrightarrow>
           (\<forall>c \<in> set (get_text_strip (fst l)). \<not> (isdigit c \<or> c = CHR '','')) \<longrightarrow>
           vote_count d = ''N/A'') \<and>
        (\<forall>l. find (\<lambda>t. named ''a'' t \<and> class_is ''has-icon'' t \<and> attr_search ''href'' ''/fans/'' t)
                 (soup, []) = Some l \<longrightarrow>
           (\<forall>c \<in> set (get_text_strip (fst l)). \<not> (isdigit c \<or> c = CHR '','')) \<longrightarrow>
           popularity d = ''0'')"
    by (rule exI [of _ "movie_details_of (soup, [])"]) (rule conjI [OF run all])
next
  show "fst (get_movie_details ev url w) = Inr None \<longleftrightarrow>
      (\<exists>msg. http_get ev w url = RequestException msg) \<or>
      (\<exists>status soup. http_get ev w url = Response status soup \<and> 400 \<le> status \<and> status < 600) \<or>
      (\<exists>msg. http_get ev w url = Raises (Exception msg))"
    by (simp add: get_movie_details_cases raise_for_status_def split: reply.splits exn.splits)
qed

theorem details_default_on_absence_witness:
  "get_movie_details site ''https://letterboxd.com/film/heat/'' [] =
     (Inr (Some \<lparr>movie_name = ''Heat'', year = ''N/A'', genres = ''N/A'', vote_average = ''N/A'',
                   vote_count = ''N/A'', popularity = ''0''\<rparr>),
      [GET ''https://letterboxd.com/film/heat/'']) \<and>
   fst (get_movie_details flaky ''https://letterboxd.com/film/gone/'' []) = Inr None \<and>
   fst (get_movie_details flaky ''https://letterboxd.com/film/heat/'' []) = Inr None \<and>
   get_movie_details (serving sparse_page) ''https://letterboxd.com/film/heat/'' [] =
     (Inr (Some \<lparr>movie_name = ''N/A'', year = ''N/A'', genres = ''N/A'', vote_average = ''N/A'',
                   vote_count = ''N/A'', popularity = ''0''\<rparr>),
      [GET ''https://letterboxd.com/film/heat/''])"
proof -
  let ?u = "''https://letterboxd.com/film/heat/''"
  let ?g = "''https://letterboxd.com/film/gone/''"
  have reply: "http_get site [] ?u = Response 200 title_page \<and> \<not> (400 \<le> (200::nat) \<and> (200::nat) < 600)"
    by (simp add: site_env)
  from details_default_on_absence [of site "[]" ?u 200 title_page, THEN conjunct1, THEN mp, OF reply]
  obtain d where run: "get_movie_details site ?u [] = (Inr (Some d), [] @ [GET ?u])"
    and year: "(\<forall>t \<in> set (descendants [] title_page).
                  \<not> (named ''small'' (fst t) \<and> class_is ''number'' (fst t))) \<longrightarrow> year d = ''N/A''"
    and genres: "(\<forall>t \<in> set (descendants [] title_page).
                  \<not> (named ''a'' (fst t) \<and> attr_search ''href'' ''/films/genre/'' (fst t))) \<longrightarrow>
                 genres d = ''N/A''"
    and avg: "(\<forall>t \<in> set (descendants [] title_page).
                  \<not> (named ''meta'' (fst t) \<and> attr_is ''name'' ''twitter:data2'' (fst t))) \<longrightarrow>
                 vote_average d = ''N/A''"
    and cnt: "(\<forall>t \<in> set (descendants [] title_page).
                  \<not> (named ''a'' (fst t) \<and> attr_search ''href'' ''rating-histogram'' (fst t))) \<longrightarrow>
                 vote_count d = ''N/A''"
    and pop: "(\<forall>t \<in> set (descendants [] title_page).
                  \<not> (named ''a'' (fst t) \<and> class_is ''has-icon'' (fst t) \<and>
                      attr_search ''href'' ''/fans/'' (fst t))) \<longrightarrow>
                 popularity d = ''0''"
    by (elim exE conjE)
  have y: "year d = ''N/A''"
    by (rule year [THEN mp]) (simp add: title_page_def)
  have g: "genres d = ''N/A''"
    by (rule genres [THEN mp]) (simp add: title_page_def)
  have a: "vote_average d = ''N/A''"
    by (rule avg [THEN mp]) (simp add: title_page_def)
  have c: "vote_count d = ''N/A''"
    by (rule cnt [THEN mp]) (simp add: title_page_def)
  have p: "popularity d = ''0''"
    by (rule pop [THEN mp]) (simp add: title_page_def)
  have "http_get site [] ?u = Response 200 title_page" by (simp add: site_env)
  from title_details [OF this] run have n: "movie_name d = ''Heat''" by simp
  from n y g a c p have d: "d = \<lparr>movie_name = ''Heat'', year = ''N/A'', genres = ''N/A'',
          vote_average = ''N/A'', vote_count = ''N/A'', popularity = ''0''\<rparr>"
    by (cases d) simp
  have gone: "fst (get_movie_details flaky ?g []) = Inr None"
    by (rule details_default_on_absence [of flaky "[]" ?g, THEN conjunct2, THEN iffD2])
       (simp add: flaky_env)
  have timed: "fst (get_movie_details flaky ?u []) = Inr None"
    by (rule details_default_on_absence [of flaky "[]" ?u, THEN conjunct2, THEN iffD2])
       (simp add: flaky_env)
  have reply2: "http_get (serving sparse_page) [] ?u = Response 200 sparse_page \<and>
                \<not> (400 \<le> (200::nat) \<and> (200::nat) < 600)"
    by (simp add: serving_env)
  from details_default_on_absence [of "serving sparse_page" "[]" ?u 200 sparse_page,
      THEN conjunct1, THEN mp, OF reply2]
  obtain e where run2: "get_movie_details (serving sparse_page) ?u [] = (Inr (Some e), [] @ [GET ?u])"
    and name2: "(\<forall>t \<in> set (descendants [] sparse_page).
                  \<not> (named ''h1'' (fst t) \<and> class_is ''headline-1'' (fst t))) \<longrightarrow>
                 movie_name e = ''N/A''"
    and year2: "(\<forall>t \<in> set (descendants [] sparse_page).
                  \<not> (named ''small'' (fst t) \<and> class_is ''number'' (fst t))) \<longrightarrow> year e = ''N/A''"
    and genres2: "(\<forall>t \<in> set (descendants [] sparse_page).
                  \<not> (named ''a'' (fst t) \<and> attr_search ''href'' ''/films/genre/'' (fst t))) \<longrightarrow>
                 genres e = ''N/A''"
    and avg2: "\<forall>m. find (\<lambda>t. named ''meta'' t \<and> attr_is ''name'' ''twitter:data2'' t) (sparse_page, []) = Some m \<longrightarrow>
       \<not> (\<exists>a g sp b. (case get_attr (fst m) ''content'' of Some c \<Rightarrow> c | None \<Rightarrow> []) =
                          a @ g @ sp @ ''out of'' @ b \<and>
                       g \<noteq> [] \<and> (\<forall>c \<in> set g. isdigit c \<or> c = CHR ''.'') \<and>
                       sp \<noteq> [] \<and> (\<forall>c \<in> set sp. isspace c)) \<longrightarrow>
       vote_average e = ''N/A''"
    and cnt2: "\<forall>l. find (\<lambda>t. named ''a'' t \<and> attr_search ''href'' ''rating-histogram'' t) (sparse_page, []) = Some l \<longrightarrow>
       (\<forall>c \<in> set (get_text_strip (fst l)). \<not> (isdigit c \<or> c = CHR '','')) \<longrightarrow>
       vote_count e = ''N/A''"
    and pop2: "\<forall>l. find (\<lambda>t. named ''a'' t \<and> class_is ''has-icon'' t \<and> attr_search ''href'' ''/fans/'' t) (sparse_page, []) = Some l \<longrightarrow>
       (\<forall>c \<in> set (get_text_strip (fst l)). \<not> (isdigit c \<or> c = CHR '','')) \<longrightarrow>
       popularity e = ''0''"
    by (elim exE conjE)
  have n2: "movie_name e = ''N/A''"
    by (rule name2 [THEN mp]) (simp add: sparse_page_def)
  have y2: "year e = ''N/A''"
    by (rule year2 [THEN mp]) (simp add: sparse_page_def)
  have g2: "genres e = ''N/A''"
    by (rule genres2 [THEN mp]) (simp add: sparse_page_def attr_search_def)
  have "\<not> (\<exists>a g sp b. ''not out of five yet'' = a @ g @ sp @ ''out of'' @ b \<and>
                g \<noteq> [] \<and> (\<forall>c \<in> set g. isdigit c \<or> c = CHR ''.'') \<and>
                sp \<noteq> [] \<and> (\<forall>c \<in> set sp. isspace c))"
    by (rule digitless_no_match) (simp add: isdigit_def)
  hence a2: "vote_average e = ''N/A''"
    using avg2 [THEN spec, THEN mp, OF sparse_elements(1)] by simp
  have c2: "vote_count e = ''N/A''"
    using cnt2 [THEN spec, THEN mp, OF sparse_elements(2)]
    by (simp add: get_text_strip_def strip_def strip_where_def isspace_def isdigit_def)
  have p2: "popularity e = ''0''"
    using pop2 [THEN spec, THEN mp, OF sparse_elements(3)]
    by (simp add: get_text_strip_def strip_def strip_where_def isspace_def isdigit_def)
  from n2 y2 g2 a2 c2 p2 have e: "e = \<lparr>movie_name = ''N/A'', year = ''N/A'', genres = ''N/A'',
          vote_average = ''N/A'', vote_count = ''N/A'', popularity = ''0''\<rparr>"
    by (cases e) simp
  from run d gone timed run2 e show ?thesis by simp
qed
section \<open>The exported file\<close>

text \<open>
  Claim C5. When there are records and the file can be written, the text written starts
  with the header row of exactly the nine column names \<^verbatim>\<open>movie_id\<close>, \<^verbatim>\<open>username\<close>,
  \<^verbatim>\<open>movie_name\<close>, \<^verbatim>\<open>year\<close>, \<^verbatim>\<open>genres\<close>, \<^verbatim>\<open>rating\<close>, \<^verbatim>\<open>popularity\<close>, \<^verbatim>\<open>vote_average\<close>,
  \<^verbatim>\<open>vote_count\<close>, in this order, whatever the records hold, and goes on with one row for
  each record, in the order of accumulation, the fields of a row in the order of the
  header.
\<close>

theorem csv_column_stability:
  assumes nonempty: "movies_data self \<noteq> []"
    and name: "name = (case filename of
                         None \<Rightarrow> username self @ ''_letterboxd_'' @ timestamp @ ''.csv''
                       | Some f \<Rightarrow> f)"
    and ok: "\<not> io_fails name"
  shows "save_to_csv io_fails timestamp self filename =
           (Some name,
            Some (name,
              ''movie_id,username,movie_name,year,genres,rating,popularity,vote_average,vote_count'' @
              [CHR 0x0D, CHR 0x0A] @
              concat (map (\<lambda>m. csv_row [movie_id m, m_username m, m_movie_name m, m_year m,
                                         m_genres m, rating m, m_popularity m, m_vote_average m,
                                         m_vote_count m])
                          (movies_data self))))"
  using nonempty ok unfolding name save_to_csv_def Let_def header_row movie_row
  by simp

theorem csv_column_stability_witness:
  "save_to_csv (\<lambda>f. False) ''20260101_120000''
     ((init ''bob'')\<lparr>movies_data := [heat, ronin\<lparr>m_genres := ''Crime, Drama''\<rparr>]\<rparr>) None =
     (Some ''bob_letterboxd_20260101_120000.csv'',
      Some (''bob_letterboxd_20260101_120000.csv'',
        ''movie_id,username,movie_name,year,genres,rating,popularity,vote_average,vote_count'' @
        [CHR 0x0D, CHR 0x0A] @
        ''heat,bob,Heat,N/A,N/A,3.5,0,N/A,N/A'' @ [CHR 0x0D, CHR 0x0A] @
        ''ronin,bob,Heat,N/A,'' @ [CHR 0x22] @ ''Crime, Drama'' @ [CHR 0x22] @
        '',Not Rated,0,N/A,N/A'' @ [CHR 0x0D, CHR 0x0A]))"
proof -
  let ?s = "(init ''bob'')\<lparr>movies_data := [heat, ronin\<lparr>m_genres := ''Crime, Drama''\<rparr>]\<rparr>"
  have a: "movies_data ?s \<noteq> []" by simp
  have b: "''bob_letterboxd_20260101_120000.csv'' =
             (case None of None \<Rightarrow> username ?s @ ''_letterboxd_'' @ ''20260101_120000'' @ ''.csv''
              | Some f \<Rightarrow> f)"
    by (simp add: init_def)
  have c: "\<not> (\<lambda>f. False) ''bob_letterboxd_20260101_120000.csv''" by simp
  show ?thesis
    using csv_column_stability [where self = ?s and filename = None
             and name = "''bob_letterboxd_20260101_120000.csv''"
             and timestamp = "''20260101_120000''" and io_fails = "\<lambda>f. False", OF a b c]
    by (simp add: csv_row_def csv_field_def heat_def ronin_def)
qed

section \<open>The slug of a listing item\<close>

text \<open>
  Claim C6. An item without a target link, or whose target link does not contain
  \<^verbatim>\<open>/film/\<close>, is discarded: it changes neither the scraper nor the world. For a target link
  that contains \<^verbatim>\<open>/film/\<close>, the slug is its final path segment after the slashes at both
  ends are stripped: the link is some slashes, a part that is empty or ends with a slash,
  the slug, and some slashes, where the slug is not empty and has no slash, and the
  stripped link does not begin with one. That slug is the one the item is scraped with:
  when no record has it, the page requested is \<^verbatim>\<open>{base_url}/film/{slug}/\<close>, and when the
  details are obtained, the record appended has the slug as its identifier.
\<close>

theorem slug_of_target_link:
  assumes slug: "slug = last (split (CHR ''/'') (strip_char (CHR ''/'') l))"
  shows "(get_attr (fst item) ''data-target-link'' = None \<or>
          (\<exists>k. get_attr (fst item) ''data-target-link'' = Some k \<and> \<not> contains ''/film/'' k) \<longrightarrow>
            scrape_item ev self item w = (None, self, w)) \<and>
         (get_attr (fst item) ''data-target-link'' = Some l \<and> contains ''/film/'' l \<longrightarrow>
            (\<exists>a b pre. l = replicate a (CHR ''/'') @ pre @ slug @ replicate b (CHR ''/'') \<and>
                       (pre = [] \<or> last pre = CHR ''/'') \<and> hd (pre @ slug) \<noteq> CHR ''/'' \<and>
                       slug \<noteq> [] \<and> CHR ''/'' \<notin> set slug) \<and>
            (slug \<notin> movie_id ` set (movies_data self) \<longrightarrow>
               prefix (w @ [GET (base_url self @ ''/film/'' @ slug @ ''/'')])
                      (snd (snd (scrape_item ev self item w)))) \<and>
            (\<forall>d w1. slug \<notin> movie_id ` set (movies_data self) \<and>
                get_movie_details ev (base_url self @ ''/film/'' @ slug @ ''/'') w =
                  (Inr (Some d), w1) \<longrightarrow>
                map movie_id (movies_data (fst (snd (scrape_item ev self item w)))) =
                  map movie_id (movies_data self) @ [slug]))"
proof (intro conjI impI allI)
  assume "get_attr (fst item) ''data-target-link'' = None \<or>
          (\<exists>k. get_attr (fst item) ''data-target-link'' = Some k \<and> \<not> contains ''/film/'' k)"
  then show "scrape_item ev self item w = (None, self, w)" by (rule not_film_discarded)
next
  assume "get_attr (fst item) ''data-target-link'' = Some l \<and> contains ''/film/'' l"
  then have "contains ''/film/'' l" by simp
  from slug_shape [OF this]
  show "\<exists>a b pre. l = replicate a (CHR ''/'') @ pre @ slug @ replicate b (CHR ''/'') \<and>
                       (pre = [] \<or> last pre = CHR ''/'') \<and> hd (pre @ slug) \<noteq> CHR ''/'' \<and>
                       slug \<noteq> [] \<and> CHR ''/'' \<notin> set slug"
    by (simp only: slug)
next
  assume a: "get_attr (fst item) ''data-target-link'' = Some l \<and> contains ''/film/'' l"
    and f: "slug \<notin> movie_id ` set (movies_data self)"
  from a have a1: "get_attr (fst item) ''data-target-link'' = Some l"
    and a2: "contains ''/film/'' l" by simp_all
  from fresh_slug_fetched [OF a1 a2 f [unfolded slug]]
  show "prefix (w @ [GET (base_url self @ ''/film/'' @ slug @ ''/'')])
               (snd (snd (scrape_item ev self item w)))"
    by (simp only: slug)
next
  fix d w1
  assume a: "get_attr (fst item) ''data-target-link'' = Some l \<and> contains ''/film/'' l"
    and f: "slug \<notin> movie_id ` set (movies_data self) \<and>
            get_movie_details ev (base_url self @ ''/film/'' @ slug @ ''/'') w = (Inr (Some d), w1)"
  from a have a1: "get_attr (fst item) ''data-target-link'' = Some l"
    and a2: "contains ''/film/'' l" by simp_all
  from f have f1: "slug \<notin> movie_id ` set (movies_data self)"
    and f2: "get_movie_details ev (base_url self @ ''/film/'' @ slug @ ''/'') w = (Inr (Some d), w1)"
    by simp_all
  from fresh_slug_recorded [OF a1 a2 f1 [unfolded slug] f2 [unfolded slug]]
  show "map movie_id (movies_data (fst (snd (scrape_item ev self item w)))) =
          map movie_id (movies_data self) @ [slug]"
    by (simp only: slug)
qed

theorem slug_of_target_link_witness:
  "scrape_item site (init ''bob'') (member_item, []) [] = (None, init ''bob'', []) \<and>
   last (split (CHR ''/'') (strip_char (CHR ''/'') ''/film/heat/'')) = ''heat'' \<and>
   (\<exists>a b pre. ''/film/heat/'' = replicate a (CHR ''/'') @ pre @ ''heat'' @ replicate b (CHR ''/'') \<and>
       (pre = [] \<or> last pre = CHR ''/'') \<and> hd (pre @ ''heat'') \<noteq> CHR ''/'') \<and>
   map movie_id (movies_data (fst (snd
       (scrape_item site (init ''bob'') (heat_item, [rated_li, films_page]) [])))) = [''heat'']"
proof -
  let ?it = "(heat_item, [rated_li, films_page])"
  have slug: "''heat'' = last (split (CHR ''/'') (strip_char (CHR ''/'') ''/film/heat/''))"
    by (simp add: slugs)
  note T = slug_of_target_link [OF slug, of ?it site "init ''bob''" "[]"]
  have link: "get_attr (fst ?it) ''data-target-link'' = Some ''/film/heat/'' \<and>
              contains ''/film/'' ''/film/heat/''"
    by (simp add: item_links)
  have fresh: "''heat'' \<notin> movie_id ` set (movies_data (init ''bob''))"
    by (simp add: init_def)
  have url: "base_url (init ''bob'') @ ''/film/'' @ ''heat'' @ ''/'' = ''https://letterboxd.com/film/heat/''"
    by (simp add: init_def)
  have det: "get_movie_details site (base_url (init ''bob'') @ ''/film/'' @ ''heat'' @ ''/'') [] =
     (Inr (Some \<lparr>movie_name = ''Heat'', year = ''N/A'', genres = ''N/A'', vote_average = ''N/A'',
                   vote_count = ''N/A'', popularity = ''0''\<rparr>),
      [] @ [GET ''https://letterboxd.com/film/heat/''])"
    unfolding url by (rule title_details) (simp add: site_env)
  note B = T [THEN conjunct2, THEN mp, OF link]
  from B [THEN conjunct1] obtain a b pre where
    "''/film/heat/'' = replicate a (CHR ''/'') @ pre @ ''heat'' @ replicate b (CHR ''/'')"
    "pre = [] \<or> last pre = CHR ''/''" "hd (pre @ ''heat'') \<noteq> CHR ''/''"
    by (elim exE conjE)
  then have shape:
    "\<exists>a b pre. ''/film/heat/'' = replicate a (CHR ''/'') @ pre @ ''heat'' @ replicate b (CHR ''/'') \<and>
       (pre = [] \<or> last pre = CHR ''/'') \<and> hd (pre @ ''heat'') \<noteq> CHR ''/''"
    by (intro exI conjI)
  have "map movie_id (movies_data (fst (snd (scrape_item site (init ''bob'') ?it [])))) =
       map movie_id (movies_data (init ''bob'')) @ [''heat'']"
    by (rule B [THEN conjunct2, THEN conjunct2, THEN spec, THEN spec, THEN mp,
                OF conjI [OF fresh det]])
  then have rec:
    "map movie_id (movies_data (fst (snd (scrape_item site (init ''bob'') ?it [])))) = [''heat'']"
    by (simp add: init_def)
  have mem: "get_attr (fst (member_item, [])) ''data-target-link'' = None \<or>
     (\<exists>k. get_attr (fst (member_item, [])) ''data-target-link'' = Some k \<and> \<not> contains ''/film/'' k)"
    by (simp add: member_item_def)
  have disc: "scrape_item site (init ''bob'') (member_item, []) [] = (None, init ''bob'', [])"
    by (rule slug_of_target_link [OF slug, of "(member_item, [])" site "init ''bob''" "[]",
                THEN conjunct1, THEN mp, OF mem])
  from disc slug [symmetric] shape rec show ?thesis by (intro conjI)
qed

section \<open>Several sections\<close>

text \<open>
  Claim C7. When scraping the first of the sections raises an \<^verbatim>\<open>Exception\<close>, the run goes
  on with the remaining sections from the scraper and the world that section left, so the
  records it had appended and those the remaining sections find are in the result; a
  section that returns is followed by the remaining ones in the same way, which gives the
  statement for a section at any place of the list. When scraping a section is
  interrupted, the loop stops at once: nothing more is requested, and the records
  accumulated so far are returned.
\<close>

theorem section_isolation:
  "(scrape_section ev sec mp self w = (Inl (Exception msg), self', w') \<longrightarrow>
      scrape_all_sections ev (Some (sec # rest)) mp self w =
        scrape_all_sections ev (Some rest) mp self' w' \<and>
      prefix (movies_data self') (fst (scrape_all_sections ev (Some (sec # rest)) mp self w))) \<and>
   (scrape_section ev sec mp self w = (Inr r, self', w') \<longrightarrow>
      scrape_all_sections ev (Some (sec # rest)) mp self w =
        scrape_all_sections ev (Some rest) mp self' w') \<and>
   (scrape_section ev sec mp self w = (Inl KeyboardInterrupt, self', w') \<longrightarrow>
      scrape_all_sections ev (Some (sec # rest)) mp self w = (movies_data self', self', w'))"
proof -
  have step:
    "scrape_section ev sec mp self w = (Inl (Exception msg), self', w') \<Longrightarrow>
     scrape_all_sections ev (Some (sec # rest)) mp self w =
       scrape_all_sections ev (Some rest) mp self' w'"
    by (simp add: scrape_all_sections_def)
  have kept:
    "prefix (movies_data self') (fst (scrape_all_sections ev (Some rest) mp self' w'))"
  proof -
    obtain r1 s1 w1 where run: "scrape_all_sections ev (Some rest) mp self' w' = (r1, s1, w1)"
      by (cases "scrape_all_sections ev (Some rest) mp self' w'") auto
    from scrape_all_sections_grows [OF run] show ?thesis
      by (simp add: run grows_def)
  qed
  have ok:
    "scrape_section ev sec mp self w = (Inr r, self', w') \<Longrightarrow>
     scrape_all_sections ev (Some (sec # rest)) mp self w =
       scrape_all_sections ev (Some rest) mp self' w'"
    by (simp add: scrape_all_sections_def)
  have stop:
    "scrape_section ev sec mp self w = (Inl KeyboardInterrupt, self', w') \<Longrightarrow>
     scrape_all_sections ev (Some (sec # rest)) mp self w = (movies_data self', self', w')"
    by (simp add: scrape_all_sections_def)
  from step kept ok stop show ?thesis by metis
qed

theorem section_isolation_witness:
  "scrape_section broken ''films'' None (init ''bob'') [] =
     (Inl (Exception ''ParserRejectedMarkup''), init ''bob'',
      [GET ''https://letterboxd.com/bob/films/'']) \<and>
   scrape_all_sections broken (Some [''films'', ''watchlist'']) None (init ''bob'') [] =
     ([heat\<lparr>rating := ''Not Rated''\<rparr>, ronin],
      (init ''bob'')\<lparr>movies_data := [heat\<lparr>rating := ''Not Rated''\<rparr>, ronin]\<rparr>,
      [GET ''https://letterboxd.com/bob/films/'',
       GET ''https://letterboxd.com/bob/watchlist/'',
       GET ''https://letterboxd.com/bob/watchlist/page/1/'',
       GET ''https://letterboxd.com/film/heat/'', Sleep 1500,
       GET ''https://letterboxd.com/film/ronin/'', Sleep 1500]) \<and>
   scrape_section impatient ''films'' None (init ''bob'') [] =
     (Inl KeyboardInterrupt, (init ''bob'')\<lparr>movies_data := [heat]\<rparr>,
      [GET ''https://letterboxd.com/bob/films/'', GET ''https://letterboxd.com/bob/films/page/1/'',
       GET ''https://letterboxd.com/film/heat/'', Sleep 1500]) \<and>
   scrape_all_sections impatient (Some [''films'', ''watchlist'']) None (init ''bob'') [] =
     ([heat], (init ''bob'')\<lparr>movies_data := [heat]\<rparr>,
      [GET ''https://letterboxd.com/bob/films/'', GET ''https://letterboxd.com/bob/films/page/1/'',
       GET ''https://letterboxd.com/film/heat/'', Sleep 1500])"
proof -
  let ?w1 = "[GET ''https://letterboxd.com/bob/films/'']"
  let ?s2 = "(init ''bob'')\<lparr>movies_data := [heat]\<rparr>"
  let ?w2 = "[GET ''https://letterboxd.com/bob/films/'',
              GET ''https://letterboxd.com/bob/films/page/1/'',
              GET ''https://letterboxd.com/film/heat/'', Sleep 1500]"
  have rest: "scrape_all_sections broken (Some [''watchlist'']) None (init ''bob'') ?w1 =
     ([heat\<lparr>rating := ''Not Rated''\<rparr>, ronin],
      (init ''bob'')\<lparr>movies_data := [heat\<lparr>rating := ''Not Rated''\<rparr>, ronin]\<rparr>,
      [GET ''https://letterboxd.com/bob/films/'',
       GET ''https://letterboxd.com/bob/watchlist/'',
       GET ''https://letterboxd.com/bob/watchlist/page/1/'',
       GET ''https://letterboxd.com/film/heat/'', Sleep 1500,
       GET ''https://letterboxd.com/film/ronin/'', Sleep 1500])"
    by (simp add: scrape_all_sections_def run_broken_watchlist)
  have a: "scrape_all_sections broken (Some [''films'', ''watchlist'']) None (init ''bob'') [] =
           scrape_all_sections broken (Some [''watchlist'']) None (init ''bob'') ?w1"
    using section_isolation [of broken "''films''" None "init ''bob''" "[]"
             "''ParserRejectedMarkup''" "init ''bob''" ?w1 "[''watchlist'']"]
      run_broken_films
    by blast
  have b: "scrape_all_sections impatient (Some [''films'', ''watchlist'']) None (init ''bob'') [] =
           (movies_data ?s2, ?s2, ?w2)"
    using section_isolation [of impatient "''films''" None "init ''bob''" "[]"
             _ ?s2 ?w2 "[''watchlist'']"]
      run_impatient_films
    by blast
  have c: "movies_data ?s2 = [heat]" by simp
  show ?thesis
    using run_broken_films run_impatient_films
    by (simp only: a rest b c simp_thms)
qed

section \<open>What one section returns\<close>

text \<open>
  Claim C9. When \<open>scrape_section\<close> returns, it returns all the records accumulated by the
  scraper, those of earlier sections first, not only the records of the section scraped.
\<close>

theorem scrape_section_returns_everything:
  assumes "scrape_section ev sec max_pages self w = (Inr r, self', w')"
  shows "r = movies_data self' \<and> prefix (movies_data self) r"
  using scrape_section_returns [OF assms] scrape_section_grows [OF assms]
  by (simp add: grows_def)

theorem scrape_section_returns_everything_witness:
  "scrape_section site ''watchlist'' None ((init ''bob'')\<lparr>movies_data := [heat]\<rparr>) [] =
     (Inr [heat, ronin], (init ''bob'')\<lparr>movies_data := [heat, ronin]\<rparr>,
      [GET ''https://letterboxd.com/bob/watchlist/'',
       GET ''https://letterboxd.com/bob/watchlist/page/1/'',
       GET ''https://letterboxd.com/film/ronin/'', Sleep 1500]) \<and>
   [heat, ronin] = movies_data ((init ''bob'')\<lparr>movies_data := [heat, ronin]\<rparr>) \<and>
   prefix (movies_data ((init ''bob'')\<lparr>movies_data := [heat]\<rparr>)) [heat, ronin]"
proof -
  have run: "scrape_section site ''watchlist'' None ((init ''bob'')\<lparr>movies_data := [heat]\<rparr>) [] =
     (Inr [heat, ronin], (init ''bob'')\<lparr>movies_data := [heat, ronin]\<rparr>,
      [GET ''https://letterboxd.com/bob/watchlist/'',
       GET ''https://letterboxd.com/bob/watchlist/page/1/'',
       GET ''https://letterboxd.com/film/ronin/'', Sleep 1500])"
    using run_watchlist [of "[]"] by simp
  show ?thesis
    using run scrape_section_returns_everything [OF run] by simp
qed

section \<open>A film whose details could not be extracted\<close>

text \<open>
  Claim C10. When the detail extraction for a film that has no record yet returns
  \<^verbatim>\<open>None\<close>, the item appends nothing: the scraper afterwards is the scraper before, and the
  only effects are the request and the pause. The slug is then still no identifier of a
  record, and whenever an item with that slug is met while no record has it (on any page,
  in any section, in any later world), the page of the film is requested again.
\<close>

theorem failed_details_not_remembered:
  assumes link: "get_attr (fst item) ''data-target-link'' = Some l" "contains ''/film/'' l"
    and slug: "slug = last (split (CHR ''/'') (strip_char (CHR ''/'') l))"
    and fresh: "slug \<notin> movie_id ` set (movies_data self)"
    and failed: "get_movie_details ev (base_url self @ ''/film/'' @ slug @ ''/'') w = (Inr None, w1)"
  shows "scrape_item ev self item w = (fst (sleep ev 1500 w1), self, snd (sleep ev 1500 w1)) \<and>
         slug \<notin> movie_id ` set (movies_data (fst (snd (scrape_item ev self item w)))) \<and>
         (\<forall>item2 l2 self2 w2.
            get_attr (fst item2) ''data-target-link'' = Some l2 \<and> contains ''/film/'' l2 \<and>
            last (split (CHR ''/'') (strip_char (CHR ''/'') l2)) = slug \<and>
            slug \<notin> movie_id ` set (movies_data self2) \<longrightarrow>
            prefix (w2 @ [GET (base_url self2 @ ''/film/'' @ slug @ ''/'')])
                   (snd (snd (scrape_item ev self2 item2 w2))))"
proof -
  from link(2) have ne: "l \<noteq> []" by auto
  from fresh slug have nf:
    "\<not> (\<exists>m \<in> set (movies_data self).
          movie_id m = last (split (CHR ''/'') (strip_char (CHR ''/'') l)))"
    by force
  have a: "scrape_item ev self item w = (fst (sleep ev 1500 w1), self, snd (sleep ev 1500 w1))"
    using link ne nf failed [unfolded slug]
    by (simp add: scrape_item_def Let_def split: prod.splits)
  then have same: "fst (snd (scrape_item ev self item w)) = self" by simp
  have b: "slug \<notin> movie_id ` set (movies_data (fst (snd (scrape_item ev self item w))))"
    using fresh by (simp add: same)
  have c: "\<forall>item2 l2 self2 w2.
            get_attr (fst item2) ''data-target-link'' = Some l2 \<and> contains ''/film/'' l2 \<and>
            last (split (CHR ''/'') (strip_char (CHR ''/'') l2)) = slug \<and>
            slug \<notin> movie_id ` set (movies_data self2) \<longrightarrow>
            prefix (w2 @ [GET (base_url self2 @ ''/film/'' @ slug @ ''/'')])
                   (snd (snd (scrape_item ev self2 item2 w2)))"
    using fresh_slug_fetched by blast
  from a b c show ?thesis by blast
qed

theorem failed_details_not_remembered_witness:
  "get_movie_details flaky ''https://letterboxd.com/film/heat/'' [] =
     (Inr None, [GET ''https://letterboxd.com/film/heat/'']) \<and>
   scrape_item flaky (init ''bob'') (heat_item, [rated_li, films_page]) [] =
     (None, init ''bob'', [GET ''https://letterboxd.com/film/heat/'', Sleep 1500]) \<and>
   scrape_items flaky [(heat_item, [rated_li, films_page]), (heat_item, [rated_li, films_page])]
     (init ''bob'') [] =
     (None, (init ''bob'')\<lparr>movies_data := [heat]\<rparr>,
      [GET ''https://letterboxd.com/film/heat/'', Sleep 1500,
       GET ''https://letterboxd.com/film/heat/'', Sleep 1500])"
proof -
  let ?it = "(heat_item, [rated_li, films_page])"
  let ?u = "''https://letterboxd.com/film/heat/''"
  have link: "get_attr (fst ?it) ''data-target-link'' = Some ''/film/heat/''"
    "contains ''/film/'' ''/film/heat/''"
    by (simp_all add: item_links)
  have slug: "''heat'' = last (split (CHR ''/'') (strip_char (CHR ''/'') ''/film/heat/''))"
    by (simp add: slugs)
  have fresh: "''heat'' \<notin> movie_id ` set (movies_data (init ''bob''))"
    by (simp add: init_def)
  have url: "base_url (init ''bob'') @ ''/film/'' @ ''heat'' @ ''/'' = ?u"
    by (simp add: init_def)
  have failed: "get_movie_details flaky ?u [] = (Inr None, [GET ?u])"
    using details_timeout [of flaky "[]" ?u "''timed out''"] by (simp add: flaky_env)
  then have failed':
    "get_movie_details flaky (base_url (init ''bob'') @ ''/film/'' @ ''heat'' @ ''/'') [] =
       (Inr None, [GET ?u])"
    by (simp only: url)
  have "scrape_item flaky (init ''bob'') ?it [] =
          (fst (sleep flaky 1500 [GET ?u]), init ''bob'', snd (sleep flaky 1500 [GET ?u]))"
    using failed_details_not_remembered [OF link slug fresh failed'] by (rule conjunct1)
  then have one: "scrape_item flaky (init ''bob'') ?it [] = (None, init ''bob'', [GET ?u, Sleep 1500])"
    by (simp add: flaky_env)
  from failed one run_flaky_twice show ?thesis by blast
qed

section \<open>The page fetcher\<close>

text \<open>
  Claim C8. \<open>get_page\<close> makes exactly one request: the world afterwards is the world before
  with one \<open>GET\<close> of the URL appended, whatever the reply. When the request raises a
  \<^verbatim>\<open>RequestException\<close> (timeout, connection error) or the response has a status from 400 to
  599, it returns \<^verbatim>\<open>None\<close> and raises nothing; on any other response it returns the parsed
  document.
\<close>

theorem get_page_one_attempt:
  "snd (get_page ev url w) = w @ [GET url] \<and>
   (\<forall>msg. http_get ev w url = RequestException msg \<longrightarrow> fst (get_page ev url w) = Inr None) \<and>
   (\<forall>status soup. http_get ev w url = Response status soup \<and> 400 \<le> status \<and> status < 600 \<longrightarrow>
        fst (get_page ev url w) = Inr None) \<and>
   (\<forall>status soup. http_get ev w url = Response status soup \<and> \<not> (400 \<le> status \<and> status < 600) \<longrightarrow>
        fst (get_page ev url w) = Inr (Some (soup, [])))"
  by (cases "http_get ev w url") (simp_all add: get_page_def raise_for_status_def)

theorem get_page_one_attempt_witness:
  "get_page flaky ''https://letterboxd.com/film/heat/'' [] =
     (Inr None, [GET ''https://letterboxd.com/film/heat/'']) \<and>
   get_page flaky ''https://letterboxd.com/film/heat/'' [GET ''https://letterboxd.com/film/heat/''] =
     (Inr (Some (title_page, [])),
      [GET ''https://letterboxd.com/film/heat/'', GET ''https://letterboxd.com/film/heat/'']) \<and>
   get_page flaky ''https://letterboxd.com/film/gone/'' [] =
     (Inr None, [GET ''https://letterboxd.com/film/gone/''])"
proof -
  let ?u = "''https://letterboxd.com/film/heat/''"
  let ?g = "''https://letterboxd.com/film/gone/''"
  have a: "http_get flaky [] ?u = RequestException ''timed out''"
    by (simp add: flaky_def)
  have b: "http_get flaky [GET ?u] ?u = Response 200 title_page"
    by (simp add: flaky_def)
  have c: "http_get flaky [] ?g = Response 404 title_page"
    by (simp add: flaky_def)
  show ?thesis
    using a b c get_page_one_attempt [of flaky ?u "[]"]
      get_page_one_attempt [of flaky ?u "[GET ?u]"]
      get_page_one_attempt [of flaky ?g "[]"]
    by (simp add: prod_eq_iff)
qed

text \<open>
  Not every status outside 200 to 399 gives \<^verbatim>\<open>None\<close>: \<^verbatim>\<open>raise_for_status\<close> raises from 400 to
  599 only, so a response of status 600 (or of an informational status such as 103) is
  parsed and returned like a successful one.
\<close>

theorem status_600_document:
  "get_page (answering 600 title_page) ''https://letterboxd.com/film/heat/'' [] =
     (Inr (Some (title_page, [])), [GET ''https://letterboxd.com/film/heat/'']) \<and>
   get_page (answering 103 title_page) ''https://letterboxd.com/film/heat/'' [] =
     (Inr (Some (title_page, [])), [GET ''https://letterboxd.com/film/heat/'']) \<and>
   \<not> (200 \<le> (600::nat) \<and> (600::nat) < 400) \<and> \<not> (200 \<le> (103::nat) \<and> (103::nat) < 400)"
  by (simp add: get_page_def answering_def site_def raise_for_status_def)

end
